theory Spec2Isabelle
  imports Main "HOL-Library.AList"
begin

section \<open>JavaScript values and the platform functions the client relies on\<close>

text \<open>
  The client (\<^verbatim>\<open>client.ts\<close>, class \<^verbatim>\<open>CrowdStrikeClientImpl\<close>) handles decoded JSON as
  untyped values: it reads properties, tests truthiness and indexes arrays without
  checking shapes. Values are therefore modelled as the JavaScript values JSON can
  produce, plus \<open>undefined\<close>. Numbers are integers here; fractions and \<open>NaN\<close> inside a
  JSON body are outside the embedding. An object is the list of its properties; a
  property name occurs once.
\<close>

datatype jsv =
    JUndefined
  | JNull
  | JBool bool
  | JNum int
  | JStr string
  | JArr "jsv list"
  | JObj "(string \<times> jsv) list"

text \<open>Every way a call can fail. The first three are the classified kinds of
  \<^verbatim>\<open>utils/errors.ts\<close>; the others are the uncaught runtime errors of the platform:
  a property read on \<open>null\<close>/\<open>undefined\<close> or a call of a non-function (\<open>TypeError\<close>),
  a body that is not JSON (\<open>SyntaxError\<close>), and a \<^verbatim>\<open>fetch\<close> that rejects.
  The retry-after value is \<open>None\<close> when \<^verbatim>\<open>parseInt\<close> yields \<open>NaN\<close>.\<close>

datatype error =
    AuthenticationError string
  | RateLimitError string (retryAfter: "int option") (retryable: bool)
  | CrowdStrikeApiError string nat
  | TypeError
  | SyntaxError
  | FetchFailed

text \<open>Truthiness, as \<^verbatim>\<open>if (x)\<close>, \<^verbatim>\<open>x || y\<close> and \<^verbatim>\<open>x ? a : b\<close> test it.\<close>

fun truthy :: "jsv \<Rightarrow> bool" where
  "truthy JUndefined = False"
| "truthy JNull = False"
| "truthy (JBool b) = b"
| "truthy (JNum n) = (n \<noteq> 0)"
| "truthy (JStr s) = (s \<noteq> [])"
| "truthy (JArr xs) = True"
| "truthy (JObj kvs) = True"

text \<open>\<^verbatim>\<open>String(n)\<close> and \<^verbatim>\<open>`${n}`\<close> for an integer \<open>n\<close>: its decimal digits.\<close>

definition digit_char :: "nat \<Rightarrow> char" where
  "digit_char d = ''0123456789'' ! d"

function String_nat :: "nat \<Rightarrow> string" where
  "String_nat n = (if n < 10 then [digit_char n] else String_nat (n div 10) @ [digit_char (n mod 10)])"
  by pat_completeness auto
termination
  by (relation "measure (\<lambda>n. n)") auto

declare String_nat.simps [simp del]

definition String_int :: "int \<Rightarrow> string" where
  "String_int i = (if i < 0 then CHR ''-'' # String_nat (nat (- i)) else String_nat (nat i))"

text \<open>\<^verbatim>\<open>Array.prototype.join(sep)\<close> on the already converted elements.\<close>

fun js_join :: "string \<Rightarrow> string list \<Rightarrow> string" where
  "js_join sep [] = []"
| "js_join sep [x] = x"
| "js_join sep (x # y # ys) = x @ sep @ js_join sep (y # ys)"

text \<open>\<^verbatim>\<open>ToString\<close>, the conversion a template literal, \<^verbatim>\<open>join\<close> and the \<^verbatim>\<open>Error\<close>
  constructor apply. Inside \<^verbatim>\<open>join\<close>, \<open>undefined\<close> and \<open>null\<close> elements become the empty
  string.\<close>

fun ToString :: "jsv \<Rightarrow> string" where
  "ToString JUndefined = ''undefined''"
| "ToString JNull = ''null''"
| "ToString (JBool b) = (if b then ''true'' else ''false'')"
| "ToString (JNum n) = String_int n"
| "ToString (JStr s) = s"
| "ToString (JArr xs) =
     js_join '','' (map (\<lambda>x. if x = JUndefined \<or> x = JNull then [] else ToString x) xs)"
| "ToString (JObj kvs) = ''[object Object]''"

definition join_elem :: "jsv \<Rightarrow> string" where
  "join_elem x = (if x = JUndefined \<or> x = JNull then [] else ToString x)"

definition array_join :: "string \<Rightarrow> jsv list \<Rightarrow> string" where
  "array_join sep xs = js_join sep (map join_elem xs)"

text \<open>Reading a data property \<^verbatim>\<open>v.name\<close>. On \<open>undefined\<close> and \<open>null\<close> the read throws;
  arrays and strings have \<^verbatim>\<open>length\<close>; every other read of a name the value does not
  own is \<open>undefined\<close>. (The client reads only \<^verbatim>\<open>errors\<close>, \<^verbatim>\<open>message\<close>, \<^verbatim>\<open>resources\<close>
  and \<^verbatim>\<open>length\<close> this way.)\<close>

fun getProp :: "jsv \<Rightarrow> string \<Rightarrow> error + jsv" where
  "getProp JUndefined k = Inl TypeError"
| "getProp JNull k = Inl TypeError"
| "getProp (JObj kvs) k = Inr (case map_of kvs k of None \<Rightarrow> JUndefined | Some v \<Rightarrow> v)"
| "getProp (JArr xs) k = Inr (if k = ''length'' then JNum (int (length xs)) else JUndefined)"
| "getProp (JStr s) k = Inr (if k = ''length'' then JNum (int (length s)) else JUndefined)"
| "getProp (JBool b) k = Inr JUndefined"
| "getProp (JNum n) k = Inr JUndefined"

text \<open>Optional chaining \<^verbatim>\<open>v?.name\<close>.\<close>

definition getPropOpt :: "jsv \<Rightarrow> string \<Rightarrow> error + jsv" where
  "getPropOpt v k = (if v = JUndefined \<or> v = JNull then Inr JUndefined else getProp v k)"

text \<open>\<^verbatim>\<open>v[0]\<close>.\<close>

fun index0 :: "jsv \<Rightarrow> error + jsv" where
  "index0 JUndefined = Inl TypeError"
| "index0 JNull = Inl TypeError"
| "index0 (JArr []) = Inr JUndefined"
| "index0 (JArr (x # xs)) = Inr x"
| "index0 (JStr []) = Inr JUndefined"
| "index0 (JStr (ch # s)) = Inr (JStr [ch])"
| "index0 (JObj kvs) = Inr (case map_of kvs ''0'' of None \<Rightarrow> JUndefined | Some v \<Rightarrow> v)"
| "index0 (JBool b) = Inr JUndefined"
| "index0 (JNum n) = Inr JUndefined"

text \<open>\<^verbatim>\<open>xs.map(f)\<close> for a callback that may throw: the first throw aborts the map.\<close>

fun mapE :: "('a \<Rightarrow> error + 'b) \<Rightarrow> 'a list \<Rightarrow> error + 'b list" where
  "mapE f [] = Inr []"
| "mapE f (x # xs) =
     (case f x of
        Inl e \<Rightarrow> Inl e
      | Inr y \<Rightarrow> (case mapE f xs of Inl e \<Rightarrow> Inl e | Inr ys \<Rightarrow> Inr (y # ys)))"

text \<open>\<^verbatim>\<open>parseInt(s, 10)\<close>: leading white space is skipped, a sign is read, then the
  longest run of decimal digits; with no digit the result is \<open>NaN\<close> (\<open>None\<close>).\<close>

definition is_space :: "char \<Rightarrow> bool" where
  "is_space ch = (ch \<in> {CHR '' '', CHR 0x09, CHR 0x0A, CHR 0x0B, CHR 0x0C, CHR 0x0D})"

definition is_digit :: "char \<Rightarrow> bool" where
  "is_digit ch = (48 \<le> (of_char ch :: nat) \<and> (of_char ch :: nat) \<le> 57)"

definition digits_value :: "string \<Rightarrow> int" where
  "digits_value ds = foldl (\<lambda>acc ch. 10 * acc + (int (of_char ch) - 48)) 0 ds"

definition parseInt :: "string \<Rightarrow> int option" where
  "parseInt s =
     (let s1 = dropWhile is_space s;
          neg = (case s1 of [] \<Rightarrow> False | ch # r \<Rightarrow> ch = CHR ''-'');
          s2 = (case s1 of [] \<Rightarrow> [] | ch # r \<Rightarrow> if ch = CHR ''-'' \<or> ch = CHR ''+'' then r else s1);
          ds = takeWhile is_digit s2
      in if ds = [] then None
         else Some (if neg then - digits_value ds else digits_value ds))"

section \<open>The network and the clock\<close>

text \<open>
  \<^verbatim>\<open>fetch\<close> and \<^verbatim>\<open>Date.now()\<close> are the only effects of the client. The world holds the
  clock, the answers the vendor will give (in order, each with the milliseconds that
  pass while the client awaits it) and the log of every call issued. The token endpoint
  answers with a body of the declared type \<^verbatim>\<open>OAuth2TokenResponse\<close> (the client casts
  it unchecked); every other endpoint answers with any JSON value. A body that is not
  JSON text is \<open>None\<close>: \<^verbatim>\<open>response.json()\<close> and \<^verbatim>\<open>JSON.parse\<close> throw on it. The field
  \<open>headers\<close> of a response is its \<^verbatim>\<open>headers.get\<close>. A scripted answer \<open>Rejects\<close> is a
  \<^verbatim>\<open>fetch\<close> that rejects (a network failure); with no scripted answer left, \<^verbatim>\<open>fetch\<close>
  rejects too.
\<close>

record OAuth2TokenResponse =
  access_token :: string
  token_type :: string
  expires_in :: int

record 'b response =
  status :: nat
  statusText :: string
  headers :: "string \<Rightarrow> string option"
  body :: "'b option"

datatype 'b fetched = Rejects | Resolves "'b response"

text \<open>A request as the client hands it to \<^verbatim>\<open>fetch\<close>. Template strings are kept as
  their pieces: literal text, \<^verbatim>\<open>encodeURIComponent(s)\<close>, and a \<^verbatim>\<open>URLSearchParams\<close>
  object (its entry list); \<^verbatim>\<open>JSON.stringify(v)\<close> is kept as \<open>v\<close>. The encodings are the
  platform's. The fields \<^verbatim>\<open>method\<close>, \<^verbatim>\<open>headers\<close> and \<^verbatim>\<open>body\<close> of \<^verbatim>\<open>RequestInit\<close> are
  \<open>init_method\<close>, \<open>init_headers\<close> and \<open>init_body\<close>; a field that is not given is \<open>None\<close>
  (no headers: the empty list).\<close>

datatype piece = Lit string | Encoded string | Params "(string \<times> string) list"

datatype body_init = TextBody "piece list" | JsonBody jsv

record RequestInit =
  init_method :: "string option"
  init_headers :: "(string \<times> string) list"
  init_body :: "body_init option"

record http_call =
  url :: "piece list"
  init :: RequestInit

record world =
  now :: int
  tokenEndpoint :: "(nat \<times> OAuth2TokenResponse fetched) list"
  apiEndpoints :: "(nat \<times> jsv fetched) list"
  calls :: "http_call list"

definition ok :: "'b response \<Rightarrow> bool" where
  "ok r = (200 \<le> status r \<and> status r \<le> 299)"

definition fetch_token :: "http_call \<Rightarrow> world \<Rightarrow> OAuth2TokenResponse fetched \<times> world" where
  "fetch_token call w =
     (case tokenEndpoint w of
        [] \<Rightarrow> (Rejects, w\<lparr>calls := calls w @ [call]\<rparr>)
      | (dt, r) # rest \<Rightarrow>
          (r, w\<lparr>now := now w + int dt, tokenEndpoint := rest, calls := calls w @ [call]\<rparr>))"

definition fetch :: "http_call \<Rightarrow> world \<Rightarrow> jsv fetched \<times> world" where
  "fetch call w =
     (case apiEndpoints w of
        [] \<Rightarrow> (Rejects, w\<lparr>calls := calls w @ [call]\<rparr>)
      | (dt, r) # rest \<Rightarrow>
          (r, w\<lparr>now := now w + int dt, apiEndpoints := rest, calls := calls w @ [call]\<rparr>))"

section \<open>The client: credentials and the token cache\<close>

text \<open>\<^verbatim>\<open>TenantCredentials\<close> (its optional \<^verbatim>\<open>baseUrl\<close> is \<open>cred_baseUrl\<close>) and the four private
  fields of \<^verbatim>\<open>CrowdStrikeClientImpl\<close>. The token slot is \<^verbatim>\<open>string | null\<close>; the expiry
  is in epoch milliseconds.\<close>

record TenantCredentials =
  clientId :: string
  clientSecret :: string
  cred_baseUrl :: "string option"

record client =
  credentials :: TenantCredentials
  baseUrl :: string
  accessToken :: "string option"
  tokenExpiry :: int

definition DEFAULT_BASE_URL :: string where
  "DEFAULT_BASE_URL = ''https://api.crowdstrike.com''"

text \<open>The constructor (and \<^verbatim>\<open>createCrowdStrikeClient\<close>): \<^verbatim>\<open>credentials.baseUrl || DEFAULT_BASE_URL\<close>.\<close>

definition createCrowdStrikeClient :: "TenantCredentials \<Rightarrow> client" where
  "createCrowdStrikeClient creds =
     \<lparr>credentials = creds,
      baseUrl = (case cred_baseUrl creds of
                   None \<Rightarrow> DEFAULT_BASE_URL
                 | Some u \<Rightarrow> if u \<noteq> [] then u else DEFAULT_BASE_URL),
      accessToken = None,
      tokenExpiry = 0\<rparr>"

type_synonym 'a outcome = "(error + 'a) \<times> client \<times> world"

text \<open>The OAuth2 call of \<^verbatim>\<open>getAccessToken\<close>.\<close>

definition token_call :: "client \<Rightarrow> http_call" where
  "token_call c =
     \<lparr>url = [Lit (baseUrl c), Lit ''/oauth2/token''],
      init = \<lparr>init_method = Some ''POST'',
              init_headers = [(''Content-Type'', ''application/x-www-form-urlencoded'')],
              init_body = Some (TextBody
                [Lit ''client_id='', Encoded (clientId (credentials c)),
                 Lit ''&client_secret='', Encoded (clientSecret (credentials c))])\<rparr>\<rparr>"

text \<open>The token exchange: everything in \<^verbatim>\<open>getAccessToken\<close> after the cache test.\<close>

definition token_exchange :: "client \<Rightarrow> world \<Rightarrow> string outcome" where
  "token_exchange c w =
     (case fetch_token (token_call c) w of
        (Rejects, w') \<Rightarrow> (Inl FetchFailed, c, w')
      | (Resolves r, w') \<Rightarrow>
          if \<not> ok r then
            (Inl (AuthenticationError
               (''OAuth2 authentication failed: '' @ String_nat (status r) @ '' '' @ statusText r)),
             c, w')
          else
            (case body r of
               None \<Rightarrow> (Inl SyntaxError, c, w')
             | Some data \<Rightarrow>
                 (Inr (access_token data),
                  c\<lparr>accessToken := Some (access_token data),
                    tokenExpiry := now w' + expires_in data * 1000\<rparr>,
                  w')))"

definition getAccessToken :: "client \<Rightarrow> world \<Rightarrow> string outcome" where
  "getAccessToken c w =
     (case accessToken c of
        None \<Rightarrow> token_exchange c w
      | Some tok \<Rightarrow>
          if tok \<noteq> [] \<and> now w < tokenExpiry c - 60000 then (Inr tok, c, w)
          else token_exchange c w)"

definition getAuthHeaders :: "client \<Rightarrow> world \<Rightarrow> ((string \<times> string) list) outcome" where
  "getAuthHeaders c w =
     (case getAccessToken c w of
        (Inl e, c', w') \<Rightarrow> (Inl e, c', w')
      | (Inr token, c', w') \<Rightarrow>
          (Inr [(''Authorization'', ''Bearer '' @ token), (''Content-Type'', ''application/json'')],
           c', w'))"

section \<open>The request executor\<close>

text \<open>Object spread \<^verbatim>\<open>{...a, ...b}\<close> on string-keyed objects: a key of \<open>b\<close> overwrites the
  same key of \<open>a\<close> in place, a new key is appended.\<close>

definition spread :: "(string \<times> 'v) list \<Rightarrow> (string \<times> 'v) list \<Rightarrow> (string \<times> 'v) list" where
  "spread a b = fold (\<lambda>(k, v). AList.update k v) b a"

text \<open>Modelled from the spec: the error classes of \<^verbatim>\<open>utils/errors.ts\<close> are not among the
  sources. A \<^verbatim>\<open>RateLimitError\<close> carries its message and the retry-after seconds and is
  marked retryable (spec 4.2 and 7); a \<^verbatim>\<open>CrowdStrikeApiError\<close> carries a message, stored
  as a string as every \<^verbatim>\<open>Error\<close> does, and the HTTP status.\<close>

definition new_RateLimitError :: "string \<Rightarrow> int option \<Rightarrow> error" where
  "new_RateLimitError msg seconds = RateLimitError msg seconds True"

definition new_CrowdStrikeApiError :: "jsv \<Rightarrow> nat \<Rightarrow> error" where
  "new_CrowdStrikeApiError message st = CrowdStrikeApiError (ToString message) st"

text \<open>The statements inside the \<^verbatim>\<open>try\<close> of \<^verbatim>\<open>request\<close>, after \<^verbatim>\<open>JSON.parse\<close>: the value
  assigned to \<^verbatim>\<open>message\<close>, \<open>None\<close> when neither branch assigns, \<open>Inl\<close> when a statement
  throws. Calling \<^verbatim>\<open>.map\<close> on anything but an array throws.\<close>

definition error_json_message :: "jsv \<Rightarrow> error + jsv option" where
  "error_json_message errorJson =
     (case getProp errorJson ''errors'' of
        Inl e \<Rightarrow> Inl e
      | Inr errors \<Rightarrow>
          (case getPropOpt errors ''length'' of
             Inl e \<Rightarrow> Inl e
           | Inr len \<Rightarrow>
               if truthy len then
                 (case errors of
                    JArr es \<Rightarrow>
                      (case mapE (\<lambda>e. getProp e ''message'') es of
                         Inl e \<Rightarrow> Inl e
                       | Inr ms \<Rightarrow> Inr (Some (JStr (array_join ''; '' ms))))
                  | _ \<Rightarrow> Inl TypeError)
               else
                 (case getProp errorJson ''message'' of
                    Inl e \<Rightarrow> Inl e
                  | Inr m \<Rightarrow> if truthy m then Inr (Some m) else Inr None)))"

text \<open>The \<^verbatim>\<open>message\<close> variable after the \<^verbatim>\<open>try\<close>/\<^verbatim>\<open>catch\<close>: the default survives a body
  that does not parse and any throw inside the \<^verbatim>\<open>try\<close>.\<close>

definition error_message :: "nat \<Rightarrow> jsv option \<Rightarrow> jsv" where
  "error_message st parsed =
     (let message = JStr (''API error: '' @ String_nat st) in
      case parsed of
        None \<Rightarrow> message
      | Some errorJson \<Rightarrow>
          (case error_json_message errorJson of
             Inl e \<Rightarrow> message
           | Inr None \<Rightarrow> message
           | Inr (Some m) \<Rightarrow> m))"

definition retry_after :: "jsv response \<Rightarrow> int option" where
  "retry_after r =
     (case headers r ''X-RateLimit-RetryAfter'' of
        None \<Rightarrow> Some 60
      | Some hdr \<Rightarrow> if hdr \<noteq> [] then parseInt hdr else Some 60)"

text \<open>The classification of a response, from the \<open>429\<close> test to the final
  \<^verbatim>\<open>response.json()\<close>.\<close>

definition classify :: "jsv response \<Rightarrow> client \<Rightarrow> (error + jsv) \<times> client" where
  "classify r c =
     (if status r = 429 then
        (Inl (new_RateLimitError ''Rate limit exceeded'' (retry_after r)), c)
      else if status r = 401 \<or> status r = 403 then
        (Inl (AuthenticationError ''Authentication failed. Check your API credentials.''),
         c\<lparr>accessToken := None\<rparr>)
      else if \<not> ok r then
        (Inl (new_CrowdStrikeApiError (error_message (status r) (body r)) (status r)), c)
      else if status r = 204 then (Inr JUndefined, c)
      else (case body r of None \<Rightarrow> (Inl SyntaxError, c) | Some j \<Rightarrow> (Inr j, c)))"

definition api_call :: "client \<Rightarrow> (string \<times> string) list \<Rightarrow> piece list \<Rightarrow> RequestInit \<Rightarrow> http_call" where
  "api_call c hdrs endpoint options =
     \<lparr>url = Lit (baseUrl c) # endpoint,
      init = options\<lparr>init_headers := spread hdrs (init_headers options)\<rparr>\<rparr>"

definition request :: "piece list \<Rightarrow> RequestInit \<Rightarrow> client \<Rightarrow> world \<Rightarrow> jsv outcome" where
  "request endpoint options c w =
     (case getAuthHeaders c w of
        (Inl e, c1, w1) \<Rightarrow> (Inl e, c1, w1)
      | (Inr hdrs, c1, w1) \<Rightarrow>
          (case fetch (api_call c1 hdrs endpoint options) w1 of
             (Rejects, w2) \<Rightarrow> (Inl FetchFailed, c1, w2)
           | (Resolves r, w2) \<Rightarrow> (case classify r c1 of (res, c2) \<Rightarrow> (res, c2, w2))))"

text \<open>The request options the operations use: none, a method with a JSON body, a
  method alone.\<close>

definition no_options :: RequestInit where
  "no_options = \<lparr>init_method = None, init_headers = [], init_body = None\<rparr>"

definition json_options :: "string \<Rightarrow> jsv \<Rightarrow> RequestInit" where
  "json_options m v = \<lparr>init_method = Some m, init_headers = [], init_body = Some (JsonBody v)\<rparr>"

definition method_options :: "string \<Rightarrow> RequestInit" where
  "method_options m = \<lparr>init_method = Some m, init_headers = [], init_body = None\<rparr>"

section \<open>The typed operations\<close>

text \<open>\<^verbatim>\<open>QueryParams\<close>: every field is optional; \<^verbatim>\<open>filter\<close> and \<^verbatim>\<open>sort\<close> are
  \<open>filter_param\<close> and \<open>sort_param\<close>. A mutation returns the acknowledgement
  \<^verbatim>\<open>{ success, message }\<close>, \<^verbatim>\<open>testConnection\<close> returns \<^verbatim>\<open>{ connected, message }\<close>.\<close>

record QueryParams =
  filter_param :: "string option"
  limit :: "int option"
  offset :: "int option"
  sort_param :: "string option"
  after :: "string option"

record ack =
  success :: bool
  message :: string

record connection =
  connected :: bool
  connection_message :: string

text \<open>\<^verbatim>\<open>await\<close> followed by the rest of the method: an error of the awaited call
  propagates, a value goes to the continuation, which may throw too.\<close>

definition await_then :: "'a outcome \<Rightarrow> ('a \<Rightarrow> error + 'b) \<Rightarrow> 'b outcome" where
  "await_then out k =
     (case out of
        (Inl e, c, w) \<Rightarrow> (Inl e, c, w)
      | (Inr v, c, w) \<Rightarrow> (k v, c, w))"

text \<open>\<^verbatim>\<open>return response.resources || []\<close> and \<^verbatim>\<open>return response.resources[0]\<close>.\<close>

definition resources_or_empty :: "jsv \<Rightarrow> error + jsv" where
  "resources_or_empty response =
     (case getProp response ''resources'' of
        Inl e \<Rightarrow> Inl e
      | Inr r \<Rightarrow> Inr (if truthy r then r else JArr []))"

definition first_resource :: "jsv \<Rightarrow> error + jsv" where
  "first_resource response =
     (case getProp response ''resources'' of
        Inl e \<Rightarrow> Inl e
      | Inr r \<Rightarrow> index0 r)"

text \<open>\<^verbatim>\<open>URLSearchParams\<close>: \<^verbatim>\<open>set\<close>, \<^verbatim>\<open>append\<close>, and the guarded \<^verbatim>\<open>set\<close> of the query
  methods, \<^verbatim>\<open>if (params?.x) queryParams.set('x', ...)\<close>, for a string and for a number.\<close>

definition params_set :: "string \<Rightarrow> string \<Rightarrow> (string \<times> string) list \<Rightarrow> (string \<times> string) list" where
  "params_set k v qp = AList.update k v qp"

definition params_append :: "string \<Rightarrow> string \<Rightarrow> (string \<times> string) list \<Rightarrow> (string \<times> string) list" where
  "params_append k v qp = qp @ [(k, v)]"

definition opt_field :: "QueryParams option \<Rightarrow> (QueryParams \<Rightarrow> 'a option) \<Rightarrow> 'a option" where
  "opt_field params f = (case params of None \<Rightarrow> None | Some p \<Rightarrow> f p)"

definition set_if_string :: "string \<Rightarrow> string option \<Rightarrow> (string \<times> string) list \<Rightarrow> (string \<times> string) list" where
  "set_if_string k v qp =
     (case v of None \<Rightarrow> qp | Some s \<Rightarrow> if s \<noteq> [] then params_set k s qp else qp)"

definition set_if_number :: "string \<Rightarrow> int option \<Rightarrow> (string \<times> string) list \<Rightarrow> (string \<times> string) list" where
  "set_if_number k v qp =
     (case v of None \<Rightarrow> qp | Some n \<Rightarrow> if n \<noteq> 0 then params_set k (String_int n) qp else qp)"

text \<open>The four guarded \<^verbatim>\<open>set\<close> lines shared, verbatim, by the query methods with
  offset pagination.\<close>

definition offset_query :: "QueryParams option \<Rightarrow> (string \<times> string) list" where
  "offset_query params =
     set_if_string ''sort'' (opt_field params sort_param)
       (set_if_number ''offset'' (opt_field params offset)
         (set_if_number ''limit'' (opt_field params limit)
           (set_if_string ''filter'' (opt_field params filter_param) [])))"

text \<open>\<^verbatim>\<open>ids.forEach((id) => queryParams.append('ids', id))\<close> on a fresh object.\<close>

definition ids_query :: "string list \<Rightarrow> (string \<times> string) list" where
  "ids_query ids = fold (\<lambda>ident. params_append ''ids'' ident) ids []"

definition ids_body :: "string list \<Rightarrow> jsv" where
  "ids_body ids = JObj [(''ids'', JArr (map JStr ids))]"

definition quoted :: "string \<Rightarrow> string" where
  "quoted s = CHR 0x27 # s @ [CHR 0x27]"

definition acknowledge :: "string \<Rightarrow> jsv \<Rightarrow> error + ack" where
  "acknowledge msg response = Inr \<lparr>success = True, message = msg\<rparr>"

subsection \<open>Connection\<close>

text \<open>The text of a caught error, \<^verbatim>\<open>error.message\<close>. The wording of a platform error
  is the platform's; it is represented by the error's name.\<close>

fun message_of :: "error \<Rightarrow> string" where
  "message_of (AuthenticationError m) = m"
| "message_of (RateLimitError m ra rt) = m"
| "message_of (CrowdStrikeApiError m st) = m"
| "message_of TypeError = ''TypeError''"
| "message_of SyntaxError = ''SyntaxError''"
| "message_of FetchFailed = ''fetch failed''"

definition testConnection :: "client \<Rightarrow> world \<Rightarrow> connection outcome" where
  "testConnection c w =
     (case getAccessToken c w of
        (Inl e, c1, w1) \<Rightarrow> (Inr \<lparr>connected = False, connection_message = message_of e\<rparr>, c1, w1)
      | (Inr tok, c1, w1) \<Rightarrow>
          (case request [Lit ''/devices/queries/devices/v1?limit=1''] no_options c1 w1 of
             (Inl e, c2, w2) \<Rightarrow>
               (Inr \<lparr>connected = False, connection_message = message_of e\<rparr>, c2, w2)
           | (Inr v, c2, w2) \<Rightarrow>
               (Inr \<lparr>connected = True,
                     connection_message = ''Successfully connected to CrowdStrike Falcon API''\<rparr>,
                c2, w2)))"

subsection \<open>Hosts\<close>

definition queryHosts :: "QueryParams option \<Rightarrow> client \<Rightarrow> world \<Rightarrow> jsv outcome" where
  "queryHosts params c w =
     await_then
       (request [Lit ''/devices/queries/devices/v1?'', Params (offset_query params)] no_options c w)
       resources_or_empty"

definition getHosts :: "string list \<Rightarrow> client \<Rightarrow> world \<Rightarrow> jsv outcome" where
  "getHosts ids c w =
     (if length ids = 0 then (Inr (JArr []), c, w)
      else await_then
             (request [Lit ''/devices/entities/devices/v2''] (json_options ''POST'' (ids_body ids)) c w)
             resources_or_empty)"

definition containHost :: "string list \<Rightarrow> client \<Rightarrow> world \<Rightarrow> ack outcome" where
  "containHost ids c w =
     await_then
       (request [Lit ''/devices/entities/devices-actions/v2?action_name=contain'']
          (json_options ''POST'' (ids_body ids)) c w)
       (acknowledge (''Containment initiated for '' @ String_nat (length ids) @ '' host(s)''))"

definition liftContainment :: "string list \<Rightarrow> client \<Rightarrow> world \<Rightarrow> ack outcome" where
  "liftContainment ids c w =
     await_then
       (request [Lit ''/devices/entities/devices-actions/v2?action_name=lift_containment'']
          (json_options ''POST'' (ids_body ids)) c w)
       (acknowledge (''Containment lifted for '' @ String_nat (length ids) @ '' host(s)''))"

definition hideHost :: "string list \<Rightarrow> client \<Rightarrow> world \<Rightarrow> ack outcome" where
  "hideHost ids c w =
     await_then
       (request [Lit ''/devices/entities/devices-actions/v2?action_name=hide_host'']
          (json_options ''POST'' (ids_body ids)) c w)
       (acknowledge (''Hidden '' @ String_nat (length ids) @ '' host(s)''))"

definition unhideHost :: "string list \<Rightarrow> client \<Rightarrow> world \<Rightarrow> ack outcome" where
  "unhideHost ids c w =
     await_then
       (request [Lit ''/devices/entities/devices-actions/v2?action_name=unhide_host'']
          (json_options ''POST'' (ids_body ids)) c w)
       (acknowledge (''Unhidden '' @ String_nat (length ids) @ '' host(s)''))"

subsection \<open>Detections\<close>

definition queryDetections :: "QueryParams option \<Rightarrow> client \<Rightarrow> world \<Rightarrow> jsv outcome" where
  "queryDetections params c w =
     await_then
       (request [Lit ''/detects/queries/detects/v1?'', Params (offset_query params)] no_options c w)
       resources_or_empty"

definition getDetections :: "string list \<Rightarrow> client \<Rightarrow> world \<Rightarrow> jsv outcome" where
  "getDetections ids c w =
     (if length ids = 0 then (Inr (JArr []), c, w)
      else await_then
             (request [Lit ''/detects/entities/summaries/GET/v1'']
                (json_options ''POST'' (ids_body ids)) c w)
             resources_or_empty)"

text \<open>\<^verbatim>\<open>if (x) body.name = x\<close> on the body under construction.\<close>

definition put_if_string :: "string \<Rightarrow> string option \<Rightarrow> (string \<times> jsv) list \<Rightarrow> (string \<times> jsv) list" where
  "put_if_string k v obj =
     (case v of None \<Rightarrow> obj | Some s \<Rightarrow> if s \<noteq> [] then AList.update k (JStr s) obj else obj)"

definition updateDetectionStatus ::
  "string list \<Rightarrow> string \<Rightarrow> string option \<Rightarrow> string option \<Rightarrow> client \<Rightarrow> world \<Rightarrow> ack outcome" where
  "updateDetectionStatus ids st assignedToUuid comment c w =
     (let body = put_if_string ''comment'' comment
                   (put_if_string ''assigned_to_uuid'' assignedToUuid
                     [(''ids'', JArr (map JStr ids)), (''status'', JStr st)])
      in await_then
           (request [Lit ''/detects/entities/detects/v2''] (json_options ''PATCH'' (JObj body)) c w)
           (acknowledge (''Updated status to '' @ quoted st @ '' for ''
                           @ String_nat (length ids) @ '' detection(s)'')))"

subsection \<open>Incidents\<close>

definition queryIncidents :: "QueryParams option \<Rightarrow> client \<Rightarrow> world \<Rightarrow> jsv outcome" where
  "queryIncidents params c w =
     await_then
       (request [Lit ''/incidents/queries/incidents/v1?'', Params (offset_query params)] no_options c w)
       resources_or_empty"

definition getIncidents :: "string list \<Rightarrow> client \<Rightarrow> world \<Rightarrow> jsv outcome" where
  "getIncidents ids c w =
     (if length ids = 0 then (Inr (JArr []), c, w)
      else await_then
             (request [Lit ''/incidents/entities/incidents/GET/v1'']
                (json_options ''POST'' (ids_body ids)) c w)
             resources_or_empty)"

definition updateIncident ::
  "string list \<Rightarrow> string \<Rightarrow> string option \<Rightarrow> client \<Rightarrow> world \<Rightarrow> ack outcome" where
  "updateIncident ids action val c w =
     await_then
       (request [Lit ''/incidents/entities/incident-actions/v1'']
          (json_options ''POST''
             (JObj [(''ids'', JArr (map JStr ids)),
                    (''action_parameters'',
                     JArr [JObj [(''name'', JStr action),
                                 (''value'', JStr (case val of None \<Rightarrow> [] | Some v \<Rightarrow> if v \<noteq> [] then v else []))]])]))
          c w)
       (acknowledge (''Action '' @ quoted action @ '' applied to ''
                       @ String_nat (length ids) @ '' incident(s)''))"

definition getBehaviors :: "string list \<Rightarrow> client \<Rightarrow> world \<Rightarrow> jsv outcome" where
  "getBehaviors ids c w =
     (if length ids = 0 then (Inr (JArr []), c, w)
      else await_then
             (request [Lit ''/incidents/entities/behaviors/GET/v1'']
                (json_options ''POST'' (ids_body ids)) c w)
             resources_or_empty)"

subsection \<open>Alerts\<close>

definition queryAlerts :: "QueryParams option \<Rightarrow> client \<Rightarrow> world \<Rightarrow> jsv outcome" where
  "queryAlerts params c w =
     await_then
       (request [Lit ''/alerts/queries/alerts/v1?'', Params (offset_query params)] no_options c w)
       resources_or_empty"

definition getAlerts :: "string list \<Rightarrow> client \<Rightarrow> world \<Rightarrow> jsv outcome" where
  "getAlerts ids c w =
     (if length ids = 0 then (Inr (JArr []), c, w)
      else await_then
             (request [Lit ''/alerts/entities/alerts/v1''] (json_options ''POST'' (ids_body ids)) c w)
             resources_or_empty)"

definition updateAlerts ::
  "string list \<Rightarrow> string option \<Rightarrow> string option \<Rightarrow> string option \<Rightarrow> client \<Rightarrow> world \<Rightarrow> ack outcome" where
  "updateAlerts ids st assignedTo comment c w =
     (let body = put_if_string ''add_comment'' comment
                   (put_if_string ''assign_to'' assignedTo
                     (put_if_string ''update_status'' st
                       [(''ids'', JArr (map JStr ids))]))
      in await_then
           (request [Lit ''/alerts/entities/alerts/v2''] (json_options ''PATCH'' (JObj body)) c w)
           (acknowledge (''Updated '' @ String_nat (length ids) @ '' alert(s)'')))"

subsection \<open>Indicators of compromise\<close>

definition queryIOCs :: "QueryParams option \<Rightarrow> client \<Rightarrow> world \<Rightarrow> jsv outcome" where
  "queryIOCs params c w =
     await_then
       (request [Lit ''/iocs/queries/indicators/v1?'',
                 Params (set_if_string ''after'' (opt_field params after) (offset_query params))]
          no_options c w)
       resources_or_empty"

definition getIOCs :: "string list \<Rightarrow> client \<Rightarrow> world \<Rightarrow> jsv outcome" where
  "getIOCs ids c w =
     (if length ids = 0 then (Inr (JArr []), c, w)
      else await_then
             (request [Lit ''/iocs/entities/indicators/v1?'', Params (ids_query ids)] no_options c w)
             resources_or_empty)"

text \<open>An \<^verbatim>\<open>IOCCreateInput\<close> or \<^verbatim>\<open>HostGroupCreateInput\<close> object is its property list.\<close>

definition createIOC :: "(string \<times> jsv) list \<Rightarrow> client \<Rightarrow> world \<Rightarrow> jsv outcome" where
  "createIOC input c w =
     await_then
       (request [Lit ''/iocs/entities/indicators/v1'']
          (json_options ''POST'' (JObj [(''indicators'', JArr [JObj input])])) c w)
       first_resource"

definition updateIOC :: "string \<Rightarrow> (string \<times> jsv) list \<Rightarrow> client \<Rightarrow> world \<Rightarrow> jsv outcome" where
  "updateIOC ident input c w =
     await_then
       (request [Lit ''/iocs/entities/indicators/v1'']
          (json_options ''PATCH''
             (JObj [(''indicators'', JArr [JObj (spread [(''id'', JStr ident)] input)])])) c w)
       first_resource"

definition deleteIOCs :: "string list \<Rightarrow> client \<Rightarrow> world \<Rightarrow> ack outcome" where
  "deleteIOCs ids c w =
     await_then
       (request [Lit ''/iocs/entities/indicators/v1?'', Params (ids_query ids)]
          (method_options ''DELETE'') c w)
       (acknowledge (''Deleted '' @ String_nat (length ids) @ '' IOC(s)''))"

subsection \<open>Spotlight vulnerabilities\<close>

definition queryVulnerabilities :: "string \<Rightarrow> QueryParams option \<Rightarrow> client \<Rightarrow> world \<Rightarrow> jsv outcome" where
  "queryVulnerabilities flt params c w =
     await_then
       (request [Lit ''/spotlight/queries/vulnerabilities/v1?'',
                 Params (set_if_string ''sort'' (opt_field params sort_param)
                          (set_if_string ''after'' (opt_field params after)
                            (set_if_number ''limit'' (opt_field params limit)
                              (params_set ''filter'' flt []))))]
          no_options c w)
       resources_or_empty"

definition getVulnerabilities :: "string list \<Rightarrow> client \<Rightarrow> world \<Rightarrow> jsv outcome" where
  "getVulnerabilities ids c w =
     (if length ids = 0 then (Inr (JArr []), c, w)
      else await_then
             (request [Lit ''/spotlight/entities/vulnerabilities/v2?'', Params (ids_query ids)]
                no_options c w)
             resources_or_empty)"

subsection \<open>Host groups\<close>

definition queryHostGroups :: "QueryParams option \<Rightarrow> client \<Rightarrow> world \<Rightarrow> jsv outcome" where
  "queryHostGroups params c w =
     await_then
       (request [Lit ''/devices/queries/host-groups/v1?'', Params (offset_query params)] no_options c w)
       resources_or_empty"

definition getHostGroups :: "string list \<Rightarrow> client \<Rightarrow> world \<Rightarrow> jsv outcome" where
  "getHostGroups ids c w =
     (if length ids = 0 then (Inr (JArr []), c, w)
      else await_then
             (request [Lit ''/devices/entities/host-groups/v1?'', Params (ids_query ids)]
                no_options c w)
             resources_or_empty)"

definition createHostGroup :: "(string \<times> jsv) list \<Rightarrow> client \<Rightarrow> world \<Rightarrow> jsv outcome" where
  "createHostGroup input c w =
     await_then
       (request [Lit ''/devices/entities/host-groups/v1'']
          (json_options ''POST'' (JObj [(''resources'', JArr [JObj input])])) c w)
       first_resource"

definition updateHostGroup :: "string \<Rightarrow> (string \<times> jsv) list \<Rightarrow> client \<Rightarrow> world \<Rightarrow> jsv outcome" where
  "updateHostGroup ident input c w =
     await_then
       (request [Lit ''/devices/entities/host-groups/v1'']
          (json_options ''PATCH''
             (JObj [(''resources'', JArr [JObj (spread [(''id'', JStr ident)] input)])])) c w)
       first_resource"

definition deleteHostGroups :: "string list \<Rightarrow> client \<Rightarrow> world \<Rightarrow> ack outcome" where
  "deleteHostGroups ids c w =
     await_then
       (request [Lit ''/devices/entities/host-groups/v1?'', Params (ids_query ids)]
          (method_options ''DELETE'') c w)
       (acknowledge (''Deleted '' @ String_nat (length ids) @ '' host group(s)''))"

text \<open>The body of \<^verbatim>\<open>addHostsToGroup\<close> and \<^verbatim>\<open>removeHostsFromGroup\<close>.\<close>

definition group_action_body :: "string \<Rightarrow> string list \<Rightarrow> jsv" where
  "group_action_body groupId hostIds =
     JObj [(''ids'', JArr [JStr groupId]),
           (''action_parameters'',
            JArr [JObj [(''name'', JStr ''filter''),
                        (''value'',
                         JStr (js_join '','' (map (\<lambda>ident. ''device_id:'' @ quoted ident) hostIds)))]])]"

definition addHostsToGroup :: "string \<Rightarrow> string list \<Rightarrow> client \<Rightarrow> world \<Rightarrow> ack outcome" where
  "addHostsToGroup groupId hostIds c w =
     await_then
       (request [Lit ''/devices/entities/host-group-actions/v1?action_name=add-hosts'']
          (json_options ''POST'' (group_action_body groupId hostIds)) c w)
       (acknowledge (''Added '' @ String_nat (length hostIds) @ '' host(s) to group''))"

definition removeHostsFromGroup :: "string \<Rightarrow> string list \<Rightarrow> client \<Rightarrow> world \<Rightarrow> ack outcome" where
  "removeHostsFromGroup groupId hostIds c w =
     await_then
       (request [Lit ''/devices/entities/host-group-actions/v1?action_name=remove-hosts'']
          (json_options ''POST'' (group_action_body groupId hostIds)) c w)
       (acknowledge (''Removed '' @ String_nat (length hostIds) @ '' host(s) from group''))"

subsection \<open>Policies\<close>

definition queryPreventionPolicies :: "QueryParams option \<Rightarrow> client \<Rightarrow> world \<Rightarrow> jsv outcome" where
  "queryPreventionPolicies params c w =
     await_then
       (request [Lit ''/policy/queries/prevention/v1?'', Params (offset_query params)] no_options c w)
       resources_or_empty"

definition getPreventionPolicies :: "string list \<Rightarrow> client \<Rightarrow> world \<Rightarrow> jsv outcome" where
  "getPreventionPolicies ids c w =
     (if length ids = 0 then (Inr (JArr []), c, w)
      else await_then
             (request [Lit ''/policy/entities/prevention/v1?'', Params (ids_query ids)] no_options c w)
             resources_or_empty)"

definition queryDeviceControlPolicies :: "QueryParams option \<Rightarrow> client \<Rightarrow> world \<Rightarrow> jsv outcome" where
  "queryDeviceControlPolicies params c w =
     await_then
       (request [Lit ''/policy/queries/device-control/v1?'', Params (offset_query params)] no_options c w)
       resources_or_empty"

definition getDeviceControlPolicies :: "string list \<Rightarrow> client \<Rightarrow> world \<Rightarrow> jsv outcome" where
  "getDeviceControlPolicies ids c w =
     (if length ids = 0 then (Inr (JArr []), c, w)
      else await_then
             (request [Lit ''/policy/entities/device-control/v1?'', Params (ids_query ids)]
                no_options c w)
             resources_or_empty)"

definition querySensorUpdatePolicies :: "QueryParams option \<Rightarrow> client \<Rightarrow> world \<Rightarrow> jsv outcome" where
  "querySensorUpdatePolicies params c w =
     await_then
       (request [Lit ''/policy/queries/sensor-update/v1?'', Params (offset_query params)] no_options c w)
       resources_or_empty"

definition getSensorUpdatePolicies :: "string list \<Rightarrow> client \<Rightarrow> world \<Rightarrow> jsv outcome" where
  "getSensorUpdatePolicies ids c w =
     (if length ids = 0 then (Inr (JArr []), c, w)
      else await_then
             (request [Lit ''/policy/entities/sensor-update/v2?'', Params (ids_query ids)]
                no_options c w)
             resources_or_empty)"

subsection \<open>Real-time response\<close>

definition initRTRSession :: "string \<Rightarrow> bool option \<Rightarrow> client \<Rightarrow> world \<Rightarrow> jsv outcome" where
  "initRTRSession deviceId queueOffline c w =
     await_then
       (request [Lit ''/real-time-response/entities/sessions/v1'']
          (json_options ''POST''
             (JObj [(''device_id'', JStr deviceId),
                    (''queue_offline'', JBool (case queueOffline of None \<Rightarrow> False | Some b \<Rightarrow> b))]))
          c w)
       first_resource"

definition command_body :: "string \<Rightarrow> string \<Rightarrow> string \<Rightarrow> jsv" where
  "command_body sessionId baseCommand commandString =
     JObj [(''session_id'', JStr sessionId),
           (''base_command'', JStr baseCommand),
           (''command_string'', JStr commandString)]"

definition executeRTRCommand :: "string \<Rightarrow> string \<Rightarrow> string \<Rightarrow> client \<Rightarrow> world \<Rightarrow> jsv outcome" where
  "executeRTRCommand sessionId baseCommand commandString c w =
     await_then
       (request [Lit ''/real-time-response/entities/command/v1'']
          (json_options ''POST'' (command_body sessionId baseCommand commandString)) c w)
       first_resource"

definition executeRTRActiveResponderCommand ::
  "string \<Rightarrow> string \<Rightarrow> string \<Rightarrow> client \<Rightarrow> world \<Rightarrow> jsv outcome" where
  "executeRTRActiveResponderCommand sessionId baseCommand commandString c w =
     await_then
       (request [Lit ''/real-time-response/entities/active-responder-command/v1'']
          (json_options ''POST'' (command_body sessionId baseCommand commandString)) c w)
       first_resource"

definition deleteRTRSession :: "string \<Rightarrow> client \<Rightarrow> world \<Rightarrow> ack outcome" where
  "deleteRTRSession sessionId c w =
     await_then
       (request [Lit ''/real-time-response/entities/sessions/v1?session_id='', Encoded sessionId]
          (method_options ''DELETE'') c w)
       (acknowledge ''Session deleted'')"

subsection \<open>The interface \<^verbatim>\<open>CrowdStrikeClient\<close>\<close>

text \<open>One constructor per method of the interface, so that a statement can range over
  every operation of a client.\<close>

datatype operation =
    TestConnection
  | QueryHosts "QueryParams option"
  | GetHosts "string list"
  | ContainHost "string list"
  | LiftContainment "string list"
  | HideHost "string list"
  | UnhideHost "string list"
  | QueryDetections "QueryParams option"
  | GetDetections "string list"
  | UpdateDetectionStatus "string list" string "string option" "string option"
  | QueryIncidents "QueryParams option"
  | GetIncidents "string list"
  | UpdateIncident "string list" string "string option"
  | GetBehaviors "string list"
  | QueryAlerts "QueryParams option"
  | GetAlerts "string list"
  | UpdateAlerts "string list" "string option" "string option" "string option"
  | QueryIOCs "QueryParams option"
  | GetIOCs "string list"
  | CreateIOC "(string \<times> jsv) list"
  | UpdateIOC string "(string \<times> jsv) list"
  | DeleteIOCs "string list"
  | QueryVulnerabilities string "QueryParams option"
  | GetVulnerabilities "string list"
  | QueryHostGroups "QueryParams option"
  | GetHostGroups "string list"
  | CreateHostGroup "(string \<times> jsv) list"
  | UpdateHostGroup string "(string \<times> jsv) list"
  | DeleteHostGroups "string list"
  | AddHostsToGroup string "string list"
  | RemoveHostsFromGroup string "string list"
  | QueryPreventionPolicies "QueryParams option"
  | GetPreventionPolicies "string list"
  | QueryDeviceControlPolicies "QueryParams option"
  | GetDeviceControlPolicies "string list"
  | QuerySensorUpdatePolicies "QueryParams option"
  | GetSensorUpdatePolicies "string list"
  | InitRTRSession string "bool option"
  | ExecuteRTRCommand string string string
  | ExecuteRTRActiveResponderCommand string string string
  | DeleteRTRSession string

datatype result = Value jsv | Ack ack | Connection connection

definition as_result :: "('a \<Rightarrow> result) \<Rightarrow> 'a outcome \<Rightarrow> result outcome" where
  "as_result f out = (case out of (r, c, w) \<Rightarrow> (map_sum (\<lambda>e. e) f r, c, w))"

primrec perform :: "operation \<Rightarrow> client \<Rightarrow> world \<Rightarrow> result outcome" where
  "perform TestConnection c w = as_result Connection (testConnection c w)"
| "perform (QueryHosts p) c w = as_result Value (queryHosts p c w)"
| "perform (GetHosts ids) c w = as_result Value (getHosts ids c w)"
| "perform (ContainHost ids) c w = as_result Ack (containHost ids c w)"
| "perform (LiftContainment ids) c w = as_result Ack (liftContainment ids c w)"
| "perform (HideHost ids) c w = as_result Ack (hideHost ids c w)"
| "perform (UnhideHost ids) c w = as_result Ack (unhideHost ids c w)"
| "perform (QueryDetections p) c w = as_result Value (queryDetections p c w)"
| "perform (GetDetections ids) c w = as_result Value (getDetections ids c w)"
| "perform (UpdateDetectionStatus ids st a cm) c w = as_result Ack (updateDetectionStatus ids st a cm c w)"
| "perform (QueryIncidents p) c w = as_result Value (queryIncidents p c w)"
| "perform (GetIncidents ids) c w = as_result Value (getIncidents ids c w)"
| "perform (UpdateIncident ids a v) c w = as_result Ack (updateIncident ids a v c w)"
| "perform (GetBehaviors ids) c w = as_result Value (getBehaviors ids c w)"
| "perform (QueryAlerts p) c w = as_result Value (queryAlerts p c w)"
| "perform (GetAlerts ids) c w = as_result Value (getAlerts ids c w)"
| "perform (UpdateAlerts ids st a cm) c w = as_result Ack (updateAlerts ids st a cm c w)"
| "perform (QueryIOCs p) c w = as_result Value (queryIOCs p c w)"
| "perform (GetIOCs ids) c w = as_result Value (getIOCs ids c w)"
| "perform (CreateIOC i) c w = as_result Value (createIOC i c w)"
| "perform (UpdateIOC ident i) c w = as_result Value (updateIOC ident i c w)"
| "perform (DeleteIOCs ids) c w = as_result Ack (deleteIOCs ids c w)"
| "perform (QueryVulnerabilities f p) c w = as_result Value (queryVulnerabilities f p c w)"
| "perform (GetVulnerabilities ids) c w = as_result Value (getVulnerabilities ids c w)"
| "perform (QueryHostGroups p) c w = as_result Value (queryHostGroups p c w)"
| "perform (GetHostGroups ids) c w = as_result Value (getHostGroups ids c w)"
| "perform (CreateHostGroup i) c w = as_result Value (createHostGroup i c w)"
| "perform (UpdateHostGroup ident i) c w = as_result Value (updateHostGroup ident i c w)"
| "perform (DeleteHostGroups ids) c w = as_result Ack (deleteHostGroups ids c w)"
| "perform (AddHostsToGroup g ids) c w = as_result Ack (addHostsToGroup g ids c w)"
| "perform (RemoveHostsFromGroup g ids) c w = as_result Ack (removeHostsFromGroup g ids c w)"
| "perform (QueryPreventionPolicies p) c w = as_result Value (queryPreventionPolicies p c w)"
| "perform (GetPreventionPolicies ids) c w = as_result Value (getPreventionPolicies ids c w)"
| "perform (QueryDeviceControlPolicies p) c w = as_result Value (queryDeviceControlPolicies p c w)"
| "perform (GetDeviceControlPolicies ids) c w = as_result Value (getDeviceControlPolicies ids c w)"
| "perform (QuerySensorUpdatePolicies p) c w = as_result Value (querySensorUpdatePolicies p c w)"
| "perform (GetSensorUpdatePolicies ids) c w = as_result Value (getSensorUpdatePolicies ids c w)"
| "perform (InitRTRSession d q) c w = as_result Value (initRTRSession d q c w)"
| "perform (ExecuteRTRCommand s b cs) c w = as_result Value (executeRTRCommand s b cs c w)"
| "perform (ExecuteRTRActiveResponderCommand s b cs) c w = as_result Value (executeRTRActiveResponderCommand s b cs c w)"
| "perform (DeleteRTRSession s) c w = as_result Ack (deleteRTRSession s c w)"

section \<open>The vulnerability query tool\<close>

text \<open>
  \<^verbatim>\<open>registerVulnerabilityTools\<close> declares the tool \<^verbatim>\<open>crowdstrike_query_vulnerabilities\<close>
  with a parameter schema; the MCP server checks the arguments against the schema
  and calls the handler only when they pass. An argument that is absent is
  \<open>undefined\<close>. The three validators are the schema expressions of the declaration:
  \<^verbatim>\<open>z.string()\<close>, \<^verbatim>\<open>z.string().optional()\<close> and
  \<^verbatim>\<open>z.number().int().min(lo).max(hi).default(d)\<close>.
\<close>

record vulnerability_args =
  filter_arg :: jsv
  limit_arg :: jsv
  after_arg :: jsv
  sort_arg :: jsv

datatype tool_response = InvalidParams | ErrorResponse error | JsonResponse jsv

fun z_string :: "jsv \<Rightarrow> string option" where
  "z_string (JStr s) = Some s"
| "z_string v = None"

fun z_string_optional :: "jsv \<Rightarrow> string option option" where
  "z_string_optional JUndefined = Some None"
| "z_string_optional (JStr s) = Some (Some s)"
| "z_string_optional v = None"

fun z_int_range_default :: "int \<Rightarrow> int \<Rightarrow> int \<Rightarrow> jsv \<Rightarrow> int option" where
  "z_int_range_default lo hi d JUndefined = Some d"
| "z_int_range_default lo hi d (JNum n) = (if lo \<le> n \<and> n \<le> hi then Some n else None)"
| "z_int_range_default lo hi d v = None"

definition crowdstrike_query_vulnerabilities ::
  "vulnerability_args \<Rightarrow> client \<Rightarrow> world \<Rightarrow> tool_response \<times> client \<times> world" where
  "crowdstrike_query_vulnerabilities args c w =
     (case (z_string (filter_arg args),
            z_int_range_default 1 400 100 (limit_arg args),
            z_string_optional (after_arg args),
            z_string_optional (sort_arg args)) of
        (Some flt, Some lim, Some aft, Some srt) \<Rightarrow>
          (case queryVulnerabilities flt
                  (Some \<lparr>filter_param = None, limit = Some lim, offset = None,
                         sort_param = srt, after = aft\<rparr>) c w of
             (Inl e, c', w') \<Rightarrow> (ErrorResponse e, c', w')
           | (Inr ids, c', w') \<Rightarrow>
               (case getProp ids ''length'' of
                  Inl e \<Rightarrow> (ErrorResponse e, c', w')
                | Inr n \<Rightarrow> (JsonResponse (JObj [(''ids'', ids), (''count'', n)]), c', w')))
      | _ \<Rightarrow> (InvalidParams, c, w))"

section \<open>The error message as the specification words it\<close>

text \<open>
  The specification computes the message of a generic API error as: the join of each
  error's \<^verbatim>\<open>message\<close> with \<^verbatim>\<open>"; "\<close> if the parsed body contains an \<^verbatim>\<open>errors\<close> array;
  else the top-level \<^verbatim>\<open>message\<close> if the body contains one; else \<^verbatim>\<open>"API error: <status>"\<close>.
  This definition follows those words, to be compared with \<open>error_message\<close>.
\<close>

definition own_property :: "jsv \<Rightarrow> string \<Rightarrow> jsv option" where
  "own_property v k = (case v of JObj kvs \<Rightarrow> map_of kvs k | _ \<Rightarrow> None)"



section \<open>The binding of a client\<close>

text \<open>Two client states have the same binding when they hold the same credentials and
  the same resolved base URL; they may differ in the token slot only.\<close>

definition same_binding :: "client \<Rightarrow> client \<Rightarrow> bool" where
  "same_binding c c' = (credentials c' = credentials c \<and> baseUrl c' = baseUrl c)"

section \<open>Concrete scenarios\<close>

definition demo_credentials :: TenantCredentials where
  "demo_credentials = \<lparr>clientId = ''a'', clientSecret = ''b'', cred_baseUrl = None\<rparr>"

definition fresh_client :: client where
  "fresh_client = createCrowdStrikeClient demo_credentials"

text \<open>A client holding the token \<^verbatim>\<open>tok1\<close>, fetched at time \<open>0\<close> with \<^verbatim>\<open>expires_in = 300\<close>.\<close>

definition cached_client :: client where
  "cached_client = fresh_client\<lparr>accessToken := Some ''tok1'', tokenExpiry := 300000\<rparr>"

definition idle_world :: "int \<Rightarrow> world" where
  "idle_world t = \<lparr>now = t, tokenEndpoint = [], apiEndpoints = [], calls = []\<rparr>"

definition api_reply :: "nat \<Rightarrow> (string \<Rightarrow> string option) \<Rightarrow> jsv option \<Rightarrow> jsv response" where
  "api_reply st hs b = \<lparr>status = st, statusText = [], headers = hs, body = b\<rparr>"

definition api_world :: "int \<Rightarrow> jsv response \<Rightarrow> world" where
  "api_world t r = \<lparr>now = t, tokenEndpoint = [], apiEndpoints = [(5, Resolves r)], calls = []\<rparr>"

definition token_reply :: "nat \<Rightarrow> string \<Rightarrow> OAuth2TokenResponse option \<Rightarrow> OAuth2TokenResponse response" where
  "token_reply st txt b = \<lparr>status = st, statusText = txt, headers = Map.empty, body = b\<rparr>"

definition token_world :: "int \<Rightarrow> OAuth2TokenResponse response \<Rightarrow> world" where
  "token_world t r = \<lparr>now = t, tokenEndpoint = [(7, Resolves r)], apiEndpoints = [], calls = []\<rparr>"

definition tok1_response :: OAuth2TokenResponse where
  "tok1_response = \<lparr>access_token = ''tok1'', token_type = ''bearer'', expires_in = 300\<rparr>"

definition empty_envelope :: jsv where
  "empty_envelope = JObj [(''meta'', JObj []), (''resources'', JArr [])]"


definition tok2_response :: OAuth2TokenResponse where
  "tok2_response = \<lparr>access_token = ''tok2'', token_type = ''bearer'', expires_in = 1800\<rparr>"




definition probe :: "piece list" where
  "probe = [Lit ''/devices/queries/devices/v1?limit=1'']"

definition bearer_tok1 :: "(string \<times> string) list" where
  "bearer_tok1 = [(''Authorization'', ''Bearer tok1''), (''Content-Type'', ''application/json'')]"

definition empty_filter_args :: vulnerability_args where
  "empty_filter_args =
     \<lparr>filter_arg = JStr [], limit_arg = JUndefined, after_arg = JUndefined, sort_arg = JUndefined\<rparr>"

definition no_filter_args :: vulnerability_args where
  "no_filter_args =
     \<lparr>filter_arg = JUndefined, limit_arg = JUndefined, after_arg = JUndefined, sort_arg = JUndefined\<rparr>"

definition ids_envelope :: jsv where
  "ids_envelope = JObj [(''resources'', JArr [JStr ''d1'', JStr ''d2''])]"

section \<open>Facts about the token manager\<close>

lemma token_exchange_calls:
  "calls (snd (snd (token_exchange c w))) = calls w @ [token_call c]"
  by (auto simp: token_exchange_def fetch_token_def split: list.splits prod.splits fetched.splits option.splits)

lemma getAccessToken_hit:
  "accessToken c = Some tok \<Longrightarrow> tok \<noteq> [] \<Longrightarrow> now w < tokenExpiry c - 60000
     \<Longrightarrow> getAccessToken c w = (Inr tok, c, w)"
  by (simp add: getAccessToken_def)

lemma getAccessToken_miss:
  "accessToken c = None \<or> accessToken c = Some [] \<or> tokenExpiry c - 60000 \<le> now w
     \<Longrightarrow> getAccessToken c w = token_exchange c w"
  by (auto simp: getAccessToken_def split: option.splits)

lemma token_exchange_success:
  "tokenEndpoint w = (dt, Resolves r) # rest \<Longrightarrow> ok r \<Longrightarrow> body r = Some d \<Longrightarrow>
   token_exchange c w =
    (Inr (access_token d),
     c\<lparr>accessToken := Some (access_token d), tokenExpiry := now w + int dt + expires_in d * 1000\<rparr>,
     w\<lparr>now := now w + int dt, tokenEndpoint := rest, calls := calls w @ [token_call c]\<rparr>)"
  by (simp add: token_exchange_def fetch_token_def)

lemma token_exchange_refused:
  "tokenEndpoint w = (dt, Resolves r) # rest \<Longrightarrow> \<not> ok r \<Longrightarrow>
   token_exchange c w =
    (Inl (AuthenticationError
            (''OAuth2 authentication failed: '' @ String_nat (status r) @ '' '' @ statusText r)),
     c,
     w\<lparr>now := now w + int dt, tokenEndpoint := rest, calls := calls w @ [token_call c]\<rparr>)"
  by (simp add: token_exchange_def fetch_token_def)

lemma token_call_slot [simp]:
  "token_call (c\<lparr>accessToken := a\<rparr>) = token_call c"
  "token_call (c\<lparr>tokenExpiry := e\<rparr>) = token_call c"
  by (simp_all add: token_call_def)

section \<open>Facts about the request executor\<close>

lemma getAuthHeaders_eq:
  "getAccessToken c w = (Inr tok, c1, w1) \<Longrightarrow>
   getAuthHeaders c w =
     (Inr [(''Authorization'', ''Bearer '' @ tok), (''Content-Type'', ''application/json'')], c1, w1)"
  by (simp add: getAuthHeaders_def)

lemma request_answered:
  "getAuthHeaders c w = (Inr hdrs, c1, w1) \<Longrightarrow> apiEndpoints w1 = (dt, Resolves r) # rest \<Longrightarrow>
   request endpoint options c w =
     (fst (classify r c1), snd (classify r c1),
      w1\<lparr>now := now w1 + int dt, apiEndpoints := rest,
         calls := calls w1 @ [api_call c1 hdrs endpoint options]\<rparr>)"
  by (simp add: request_def fetch_def split: prod.splits)

lemma request_calls_after_token:
  "\<exists>cs. calls (snd (snd (request endpoint options c w)))
          = calls (snd (snd (getAccessToken c w))) @ cs"
  by (auto simp: request_def getAuthHeaders_def fetch_def classify_def
      split: prod.splits sum.splits list.splits fetched.splits)

lemma classify_auth_failure:
  "status r = 401 \<or> status r = 403 \<Longrightarrow>
   classify r c = (Inl (AuthenticationError ''Authentication failed. Check your API credentials.''),
                   c\<lparr>accessToken := None\<rparr>)"
  by (auto simp: classify_def)



lemma classify_success:
  "ok r \<Longrightarrow> status r \<noteq> 204 \<Longrightarrow> body r = Some j \<Longrightarrow> classify r c = (Inr j, c)"
  by (auto simp: classify_def ok_def)

subsection \<open>The error message of a generic API error\<close>







subsection \<open>The scenarios\<close>

lemma cached_client_headers:
  "now w < 240000 \<Longrightarrow> getAuthHeaders cached_client w = (Inr bearer_tok1, cached_client, w)"
  by (simp add: getAuthHeaders_def getAccessToken_def cached_client_def bearer_tok1_def)

lemma api_world_simps:
  "now (api_world t r) = t" "apiEndpoints (api_world t r) = [(5, Resolves r)]"
  "calls (api_world t r) = []" "tokenEndpoint (api_world t r) = []"
  by (simp_all add: api_world_def)

lemma api_reply_simps:
  "status (api_reply st hs b) = st" "headers (api_reply st hs b) = hs" "body (api_reply st hs b) = b"
  by (simp_all add: api_reply_def)

section \<open>Facts about the operations\<close>

lemma await_then_state: "snd (await_then out k) = snd out"
  by (simp add: await_then_def split: prod.splits sum.splits)

lemma await_then_resolves:
  "out = (Inr v, c', w') \<Longrightarrow> await_then out k = (k v, c', w')"
  by (simp add: await_then_def)

lemma as_result_state: "snd (as_result f out) = snd out"
  by (simp add: as_result_def split: prod.splits)

subsection \<open>The credentials are never written\<close>

lemma same_binding_refl: "same_binding c c"
  by (simp add: same_binding_def)

lemma same_binding_slot:
  "same_binding c (c\<lparr>accessToken := a\<rparr>)" "same_binding c (c\<lparr>accessToken := a, tokenExpiry := e\<rparr>)"
  by (simp_all add: same_binding_def)

lemma same_binding_trans: "same_binding c c1 \<Longrightarrow> same_binding c1 c2 \<Longrightarrow> same_binding c c2"
  by (simp add: same_binding_def)

lemma token_exchange_binding: "same_binding c (fst (snd (token_exchange c w)))"
  by (simp add: token_exchange_def same_binding_def
      split: prod.splits fetched.splits option.splits)

lemma getAccessToken_binding: "same_binding c (fst (snd (getAccessToken c w)))"
  by (simp add: getAccessToken_def token_exchange_binding same_binding_refl split: option.splits)

lemma getAuthHeaders_binding: "same_binding c (fst (snd (getAuthHeaders c w)))"
  using getAccessToken_binding [of c w]
  by (auto simp: getAuthHeaders_def split: prod.splits sum.splits)

lemma classify_binding: "same_binding c (snd (classify r c))"
  by (simp add: classify_def same_binding_def split: option.splits)

lemma request_binding: "same_binding c (fst (snd (request endpoint options c w)))"
proof (cases "getAuthHeaders c w")
  case (fields res c1 w1)
  with getAuthHeaders_binding [of c w] have b: "same_binding c c1" by simp
  show ?thesis
  proof (cases res)
    case (Inl e)
    with fields b show ?thesis by (simp add: request_def)
  next
    case (Inr hdrs)
    obtain f w2 where f: "fetch (api_call c1 hdrs endpoint options) w1 = (f, w2)"
      by (cases "fetch (api_call c1 hdrs endpoint options) w1")
    show ?thesis
    proof (cases f)
      case Rejects
      with fields Inr f b show ?thesis by (simp add: request_def)
    next
      case (Resolves r)
      have "same_binding c1 (snd (classify r c1))" by (rule classify_binding)
      with b have "same_binding c (snd (classify r c1))" by (rule same_binding_trans)
      with fields Inr f Resolves show ?thesis
        by (auto simp: request_def split: prod.splits)
    qed
  qed
qed

lemma awaited_request_binding:
  "same_binding c (fst (snd (await_then (request endpoint options c w) k)))"
  by (simp add: await_then_state request_binding)

lemma testConnection_binding: "same_binding c (fst (snd (testConnection c w)))"
proof (cases "getAccessToken c w")
  case (fields res c1 w1)
  with getAccessToken_binding [of c w] have b: "same_binding c c1" by simp
  show ?thesis
  proof (cases res)
    case (Inl e)
    with fields b show ?thesis by (simp add: testConnection_def)
  next
    case (Inr tok)
    have "same_binding c1 (fst (snd (request [Lit ''/devices/queries/devices/v1?limit=1''] no_options c1 w1)))"
      by (rule request_binding)
    with b have "same_binding c (fst (snd (request [Lit ''/devices/queries/devices/v1?limit=1''] no_options c1 w1)))"
      by (rule same_binding_trans)
    with fields Inr show ?thesis
      by (auto simp: testConnection_def split: prod.splits sum.splits)
  qed
qed

lemma perform_binding: "same_binding c (fst (snd (perform op c w)))"
proof (cases op)
  case TestConnection
  then show ?thesis by (simp add: as_result_state testConnection_binding)
qed (simp_all add: as_result_state awaited_request_binding same_binding_refl
      queryHosts_def getHosts_def containHost_def liftContainment_def hideHost_def unhideHost_def
      queryDetections_def getDetections_def updateDetectionStatus_def
      queryIncidents_def getIncidents_def updateIncident_def getBehaviors_def
      queryAlerts_def getAlerts_def updateAlerts_def
      queryIOCs_def getIOCs_def createIOC_def updateIOC_def deleteIOCs_def
      queryVulnerabilities_def getVulnerabilities_def
      queryHostGroups_def getHostGroups_def createHostGroup_def updateHostGroup_def
      deleteHostGroups_def addHostsToGroup_def removeHostsFromGroup_def
      queryPreventionPolicies_def getPreventionPolicies_def
      queryDeviceControlPolicies_def getDeviceControlPolicies_def
      querySensorUpdatePolicies_def getSensorUpdatePolicies_def
      initRTRSession_def executeRTRCommand_def executeRTRActiveResponderCommand_def
      deleteRTRSession_def Let_def)

subsection \<open>What a request leaves in the call log and what it resolves to\<close>

lemma getAccessToken_calls:
  "\<exists>cs. calls (snd (snd (getAccessToken c w))) = calls w @ cs"
  by (auto simp: getAccessToken_def token_exchange_calls split: option.splits)

lemma request_calls_with_headers:
  "getAuthHeaders c w = (Inr hdrs, c1, w1) \<Longrightarrow>
   calls (snd (snd (request endpoint options c w))) = calls w1 @ [api_call c1 hdrs endpoint options]"
  by (auto simp: request_def fetch_def split: prod.splits list.splits fetched.splits)

lemma request_calls_nonempty:
  "\<exists>cs. cs \<noteq> [] \<and> calls (snd (snd (request endpoint options c w))) = calls w @ cs"
proof (cases "getAccessToken c w")
  case (fields res c1 w1)
  from getAccessToken_calls [of c w] fields obtain cs where cs: "calls w1 = calls w @ cs"
    by auto
  show ?thesis
  proof (cases res)
    case (Inl e)
    with fields have x: "getAccessToken c w = token_exchange c w"
      by (auto simp: getAccessToken_def split: option.splits if_splits)
    from Inl fields have "request endpoint options c w = (Inl e, c1, w1)"
      by (simp add: request_def getAuthHeaders_def)
    moreover from x fields have "token_exchange c w = (res, c1, w1)"
      by simp
    with token_exchange_calls [of c w] have "calls w1 = calls w @ [token_call c]"
      by simp
    ultimately show ?thesis by simp
  next
    case (Inr tok)
    with fields have "getAuthHeaders c w =
        (Inr [(''Authorization'', ''Bearer '' @ tok), (''Content-Type'', ''application/json'')], c1, w1)"
      by (simp add: getAuthHeaders_eq)
    then have "calls (snd (snd (request endpoint options c w)))
        = calls w1 @ [api_call c1 [(''Authorization'', ''Bearer '' @ tok), (''Content-Type'', ''application/json'')]
                        endpoint options]"
      by (rule request_calls_with_headers)
    with cs show ?thesis by simp
  qed
qed

lemma awaited_request_calls_nonempty:
  "\<exists>cs. cs \<noteq> [] \<and> calls (snd (snd (await_then (request endpoint options c w) k))) = calls w @ cs"
  using request_calls_nonempty [of endpoint options c w] by (simp add: await_then_state)

lemma request_resolves:
  "getAuthHeaders c w = (Inr hdrs, c1, w1) \<Longrightarrow> apiEndpoints w1 = (dt, Resolves r) # rest \<Longrightarrow>
   ok r \<Longrightarrow> status r \<noteq> 204 \<Longrightarrow> body r = Some j \<Longrightarrow>
   request endpoint options c w =
     (Inr j, c1,
      w1\<lparr>now := now w1 + int dt, apiEndpoints := rest,
         calls := calls w1 @ [api_call c1 hdrs endpoint options]\<rparr>)"
  by (simp add: request_answered classify_success)

lemma first_resource_empty:
  "own_property j ''resources'' = Some (JArr []) \<Longrightarrow> first_resource j = Inr JUndefined"
  by (cases j) (simp_all add: own_property_def first_resource_def)

lemma resources_or_empty_object: "\<exists>v. resources_or_empty (JObj kvs) = Inr v"
  by (simp add: resources_or_empty_def)

subsection \<open>Query parameters\<close>

lemma map_of_params_set: "map_of (params_set k v qp) = (map_of qp)(k \<mapsto> v)"
  by (simp add: params_set_def update_conv')

lemma map_of_set_if_string_other:
  "k \<noteq> k' \<Longrightarrow> map_of (set_if_string k v qp) k' = map_of qp k'"
  by (simp add: set_if_string_def map_of_params_set split: option.splits)

lemma map_of_set_if_number_other:
  "k \<noteq> k' \<Longrightarrow> map_of (set_if_number k v qp) k' = map_of qp k'"
  by (simp add: set_if_number_def map_of_params_set split: option.splits)

lemma offset_query_no_filter:
  assumes "opt_field p filter_param = None"
  shows "map_of (offset_query p) ''filter'' = None"
proof -
  have "set_if_string ''filter'' None [] = []"
    by (simp add: set_if_string_def)
  with assms show ?thesis
    by (simp add: offset_query_def map_of_set_if_string_other map_of_set_if_number_other)
qed

lemma vulnerability_query_filter:
  "map_of (set_if_string ''sort'' s (set_if_string ''after'' a (set_if_number ''limit'' l
             (params_set ''filter'' flt [])))) ''filter'' = Some flt"
  by (simp add: map_of_set_if_string_other map_of_set_if_number_other map_of_params_set)

lemma awaited_query_resolves:
  "getAuthHeaders c w = (Inr hdrs, c1, w1) \<Longrightarrow> apiEndpoints w1 = (dt, Resolves r) # rest \<Longrightarrow>
   ok r \<Longrightarrow> status r \<noteq> 204 \<Longrightarrow> body r = Some (JObj kvs) \<Longrightarrow>
   \<exists>v. fst (await_then (request endpoint options c w) resources_or_empty) = Inr v"
  by (simp add: request_resolves await_then_def resources_or_empty_def)

lemma awaited_request_calls_with_headers:
  "getAuthHeaders c w = (Inr hdrs, c1, w1) \<Longrightarrow>
   calls (snd (snd (await_then (request endpoint options c w) k)))
     = calls w1 @ [api_call c1 hdrs endpoint options]"
  by (simp add: await_then_state request_calls_with_headers)

section \<open>Verified claims\<close>

text \<open>
  Claim C1 (token cache hit). A cached token exists when the slot holds a non-empty
  string: \<^verbatim>\<open>getAccessToken\<close> tests the slot's truthiness, so \<open>null\<close> and the empty
  string both count as no token. If a token exists and the clock is strictly below the
  recorded expiry minus 60000 ms, \<^verbatim>\<open>getAccessToken\<close> returns that token and leaves the
  client and the world as they are: no call is issued, no answer is consumed, no time
  passes. In every other state (no token, or the clock at or past the boundary) it
  performs the token exchange: exactly one call, the OAuth2 one, is added to the log.
  In particular, after a token was fetched with \<^verbatim>\<open>expires_in = 300\<close> and stored at clock
  value \<open>T\<close>, a call at \<open>T + 239000\<close> is a cache hit and a call at \<open>T + 241000\<close> issues a
  new exchange.
\<close>

theorem getAccessToken_cache_boundary:
  "(accessToken c = Some tok \<and> tok \<noteq> [] \<and> now w < tokenExpiry c - 60000
      \<longrightarrow> getAccessToken c w = (Inr tok, c, w))
   \<and> (accessToken c = None \<or> accessToken c = Some [] \<or> tokenExpiry c - 60000 \<le> now w
      \<longrightarrow> getAccessToken c w = token_exchange c w
          \<and> calls (snd (snd (getAccessToken c w))) = calls w @ [token_call c])
   \<and> (tokenEndpoint w = (dt, Resolves r) # rest \<and> ok r \<and> body r = Some d
        \<and> expires_in d = 300 \<and> access_token d \<noteq> []
        \<and> (accessToken c = None \<or> accessToken c = Some [] \<or> tokenExpiry c - 60000 \<le> now w)
        \<and> getAccessToken c w = (res, c1, w1)
      \<longrightarrow> res = Inr (access_token d)
          \<and> (\<forall>w2. now w2 = now w1 + 239000 \<longrightarrow> getAccessToken c1 w2 = (Inr (access_token d), c1, w2))
          \<and> (\<forall>w3. now w3 = now w1 + 241000 \<longrightarrow>
                calls (snd (snd (getAccessToken c1 w3))) = calls w3 @ [token_call c1]))"
proof (intro conjI impI)
  assume "accessToken c = Some tok \<and> tok \<noteq> [] \<and> now w < tokenExpiry c - 60000"
  then show "getAccessToken c w = (Inr tok, c, w)" by (simp add: getAccessToken_hit)
next
  assume m: "accessToken c = None \<or> accessToken c = Some [] \<or> tokenExpiry c - 60000 \<le> now w"
  then show "getAccessToken c w = token_exchange c w" by (rule getAccessToken_miss)
  then show "calls (snd (snd (getAccessToken c w))) = calls w @ [token_call c]"
    by (simp add: token_exchange_calls)
next
  assume h: "tokenEndpoint w = (dt, Resolves r) # rest \<and> ok r \<and> body r = Some d
        \<and> expires_in d = 300 \<and> access_token d \<noteq> []
        \<and> (accessToken c = None \<or> accessToken c = Some [] \<or> tokenExpiry c - 60000 \<le> now w)
        \<and> getAccessToken c w = (res, c1, w1)"
  then have ex: "token_exchange c w = (res, c1, w1)" using getAccessToken_miss by metis
  from h have "token_exchange c w =
    (Inr (access_token d),
     c\<lparr>accessToken := Some (access_token d), tokenExpiry := now w + int dt + expires_in d * 1000\<rparr>,
     w\<lparr>now := now w + int dt, tokenEndpoint := rest, calls := calls w @ [token_call c]\<rparr>)"
    by (simp add: token_exchange_success)
  with ex h have r: "res = Inr (access_token d)"
    and c1: "accessToken c1 = Some (access_token d)" "tokenExpiry c1 = now w1 + 300000"
    by auto
  show "res = Inr (access_token d)" by (rule r)
  show "\<forall>w2. now w2 = now w1 + 239000 \<longrightarrow> getAccessToken c1 w2 = (Inr (access_token d), c1, w2)"
    using c1 h by (simp add: getAccessToken_hit)
  show "\<forall>w3. now w3 = now w1 + 241000 \<longrightarrow>
                calls (snd (snd (getAccessToken c1 w3))) = calls w3 @ [token_call c1]"
  proof (intro allI impI)
    fix w3 :: world assume "now w3 = now w1 + 241000"
    with c1 have "tokenExpiry c1 - 60000 \<le> now w3" by simp
    then have "getAccessToken c1 w3 = token_exchange c1 w3" by (simp add: getAccessToken_miss)
    then show "calls (snd (snd (getAccessToken c1 w3))) = calls w3 @ [token_call c1]"
      by (simp add: token_exchange_calls)
  qed
qed

theorem getAccessToken_cache_boundary_witness:
  "getAccessToken cached_client (idle_world 239000) = (Inr ''tok1'', cached_client, idle_world 239000)
   \<and> calls (snd (snd (getAccessToken cached_client (idle_world 241000)))) = [token_call cached_client]
   \<and> calls (snd (snd (getAccessToken fresh_client (idle_world 0)))) = [token_call fresh_client]
   \<and> getAccessToken fresh_client (token_world (-7) (token_reply 200 ''OK'' (Some tok1_response)))
       = (Inr ''tok1'', cached_client,
          \<lparr>now = 0, tokenEndpoint = [], apiEndpoints = [], calls = [token_call fresh_client]\<rparr>)
   \<and> getAccessToken cached_client (api_world 239000 (api_reply 200 Map.empty None))
       = (Inr ''tok1'', cached_client, api_world 239000 (api_reply 200 Map.empty None))
   \<and> calls (snd (snd (getAccessToken cached_client (api_world 241000 (api_reply 200 Map.empty None)))))
       = [token_call cached_client]"
proof -
  have a: "accessToken cached_client = Some ''tok1'' \<and> ''tok1'' \<noteq> []
           \<and> now (idle_world 239000) < tokenExpiry cached_client - 60000"
    by (simp add: cached_client_def idle_world_def)
  have b: "tokenExpiry cached_client - 60000 \<le> now (idle_world 241000)"
    by (simp add: cached_client_def idle_world_def)
  have c: "accessToken fresh_client = None"
    by (simp add: fresh_client_def createCrowdStrikeClient_def)
  have 1: "getAccessToken cached_client (idle_world 239000) = (Inr ''tok1'', cached_client, idle_world 239000)"
    using getAccessToken_cache_boundary [where c = cached_client and tok = "''tok1''" and w = "idle_world 239000"] a
    by blast
  have "calls (snd (snd (getAccessToken cached_client (idle_world 241000))))
          = calls (idle_world 241000) @ [token_call cached_client]"
    using getAccessToken_cache_boundary [where c = cached_client and w = "idle_world 241000"] b
    by blast
  then have 2: "calls (snd (snd (getAccessToken cached_client (idle_world 241000)))) = [token_call cached_client]"
    by (simp add: idle_world_def)
  have "calls (snd (snd (getAccessToken fresh_client (idle_world 0))))
          = calls (idle_world 0) @ [token_call fresh_client]"
    using getAccessToken_cache_boundary [where c = fresh_client and w = "idle_world 0"] c
    by blast
  then have 3: "calls (snd (snd (getAccessToken fresh_client (idle_world 0)))) = [token_call fresh_client]"
    by (simp add: idle_world_def)
  have 4: "getAccessToken fresh_client (token_world (-7) (token_reply 200 ''OK'' (Some tok1_response)))
       = (Inr ''tok1'', cached_client,
          \<lparr>now = 0, tokenEndpoint = [], apiEndpoints = [], calls = [token_call fresh_client]\<rparr>)"
    by (simp add: getAccessToken_def token_exchange_def fetch_token_def fresh_client_def
        cached_client_def createCrowdStrikeClient_def token_world_def token_reply_def ok_def
        tok1_response_def)
  have hyp: "tokenEndpoint (token_world (-7) (token_reply 200 ''OK'' (Some tok1_response)))
               = (7, Resolves (token_reply 200 ''OK'' (Some tok1_response))) # []
             \<and> ok (token_reply 200 ''OK'' (Some tok1_response))
             \<and> body (token_reply 200 ''OK'' (Some tok1_response)) = Some tok1_response
             \<and> expires_in tok1_response = 300 \<and> access_token tok1_response \<noteq> []"
    by (simp add: token_world_def token_reply_def ok_def tok1_response_def)
  have all: "(\<forall>w2. now w2 = 239000 \<longrightarrow> getAccessToken cached_client w2 = (Inr ''tok1'', cached_client, w2))
   \<and> (\<forall>w3. now w3 = 241000 \<longrightarrow>
         calls (snd (snd (getAccessToken cached_client w3))) = calls w3 @ [token_call cached_client])"
    using getAccessToken_cache_boundary [where c = fresh_client
        and w = "token_world (-7) (token_reply 200 ''OK'' (Some tok1_response))"
        and dt = 7 and r = "token_reply 200 ''OK'' (Some tok1_response)" and rest = "[]"
        and d = tok1_response and res = "Inr ''tok1''" and ?c1.0 = cached_client
        and ?w1.0 = "\<lparr>now = 0, tokenEndpoint = [], apiEndpoints = [], calls = [token_call fresh_client]\<rparr>"]
      hyp c 4
    by (simp add: tok1_response_def)
  from all have 5: "getAccessToken cached_client (api_world 239000 (api_reply 200 Map.empty None))
       = (Inr ''tok1'', cached_client, api_world 239000 (api_reply 200 Map.empty None))"
    by (simp add: api_world_def)
  from all have "calls (snd (snd (getAccessToken cached_client (api_world 241000 (api_reply 200 Map.empty None)))))
       = calls (api_world 241000 (api_reply 200 Map.empty None)) @ [token_call cached_client]"
    by (simp add: api_world_def)
  then have 6: "calls (snd (snd (getAccessToken cached_client (api_world 241000 (api_reply 200 Map.empty None)))))
       = [token_call cached_client]"
    by (simp add: api_world_def)
  from 1 2 3 4 5 6 show ?thesis by simp
qed

text \<open>
  Claim C7 (token exchange). Whenever \<^verbatim>\<open>getAccessToken\<close> performs the exchange (no
  usable cached token) and the token endpoint answers: on a status outside 200..299
  the call fails with an \<^verbatim>\<open>AuthenticationError\<close> whose message carries the status and the
  status text, the client is left as it was, and exactly one call was issued (no
  retry); on a status in 200..299 with a decoded body the client stores the returned
  \<^verbatim>\<open>access_token\<close>, sets the expiry to the clock value read after the answer plus
  \<^verbatim>\<open>expires_in * 1000\<close>, and returns the token. Both slot fields are overwritten whatever
  they held before.
\<close>

theorem getAccessToken_exchange_outcomes:
  "accessToken c = None \<or> accessToken c = Some [] \<or> tokenExpiry c - 60000 \<le> now w \<Longrightarrow>
   tokenEndpoint w = (dt, Resolves r) # rest \<Longrightarrow>
   (\<not> ok r \<longrightarrow>
      getAccessToken c w =
        (Inl (AuthenticationError
                (''OAuth2 authentication failed: '' @ String_nat (status r) @ '' '' @ statusText r)),
         c,
         w\<lparr>now := now w + int dt, tokenEndpoint := rest, calls := calls w @ [token_call c]\<rparr>))
   \<and> (ok r \<and> body r = Some d \<longrightarrow>
      getAccessToken c w =
        (Inr (access_token d),
         c\<lparr>accessToken := Some (access_token d),
           tokenExpiry := (now w + int dt) + expires_in d * 1000\<rparr>,
         w\<lparr>now := now w + int dt, tokenEndpoint := rest, calls := calls w @ [token_call c]\<rparr>))"
  by (simp add: getAccessToken_miss token_exchange_success token_exchange_refused)

theorem getAccessToken_exchange_outcomes_witness:
  "getAccessToken fresh_client (token_world 0 (token_reply 401 ''Unauthorized'' None))
     = (Inl (AuthenticationError ''OAuth2 authentication failed: 401 Unauthorized''),
        fresh_client,
        \<lparr>now = 7, tokenEndpoint = [], apiEndpoints = [], calls = [token_call fresh_client]\<rparr>)
   \<and> getAccessToken cached_client (token_world 241000 (token_reply 200 ''OK'' (Some tok2_response)))
     = (Inr ''tok2'',
        cached_client\<lparr>accessToken := Some ''tok2'', tokenExpiry := 2041007\<rparr>,
        \<lparr>now = 241007, tokenEndpoint = [], apiEndpoints = [], calls = [token_call cached_client]\<rparr>)"
proof -
  have miss1: "accessToken fresh_client = None"
    by (simp add: fresh_client_def createCrowdStrikeClient_def)
  have miss2: "tokenExpiry cached_client - 60000
                 \<le> now (token_world 241000 (token_reply 200 ''OK'' (Some tok2_response)))"
    by (simp add: cached_client_def token_world_def)
  have refused: "\<not> ok (token_reply 401 ''Unauthorized'' None)"
    by (simp add: ok_def token_reply_def)
  have granted: "ok (token_reply 200 ''OK'' (Some tok2_response))
                 \<and> body (token_reply 200 ''OK'' (Some tok2_response)) = Some tok2_response"
    by (simp add: ok_def token_reply_def)
  have 1: "getAccessToken fresh_client (token_world 0 (token_reply 401 ''Unauthorized'' None))
     = (Inl (AuthenticationError ''OAuth2 authentication failed: 401 Unauthorized''),
        fresh_client,
        \<lparr>now = 7, tokenEndpoint = [], apiEndpoints = [], calls = [token_call fresh_client]\<rparr>)"
    using getAccessToken_exchange_outcomes [where c = fresh_client
        and w = "token_world 0 (token_reply 401 ''Unauthorized'' None)"
        and dt = 7 and r = "token_reply 401 ''Unauthorized'' None" and rest = "[]"]
      miss1 refused
    by (simp add: token_world_def token_reply_def String_nat.simps digit_char_def)
  have 2: "getAccessToken cached_client (token_world 241000 (token_reply 200 ''OK'' (Some tok2_response)))
     = (Inr ''tok2'',
        cached_client\<lparr>accessToken := Some ''tok2'', tokenExpiry := 2041007\<rparr>,
        \<lparr>now = 241007, tokenEndpoint = [], apiEndpoints = [], calls = [token_call cached_client]\<rparr>)"
    using getAccessToken_exchange_outcomes [where c = cached_client
        and w = "token_world 241000 (token_reply 200 ''OK'' (Some tok2_response))"
        and dt = 7 and r = "token_reply 200 ''OK'' (Some tok2_response)" and rest = "[]"
        and d = tok2_response]
      miss2 granted
    by (simp add: token_world_def tok2_response_def)
  from 1 2 show ?thesis by simp
qed

text \<open>
  Claim C2 (token invalidation on 401/403). When the token was obtained and the
  vendor answers the request with status 401 or 403, \<^verbatim>\<open>request\<close> fails with an
  \<^verbatim>\<open>AuthenticationError\<close>, clears the cached token and issues exactly one API call (no
  retry). From the client it leaves behind, the next \<^verbatim>\<open>getAccessToken\<close> in any world
  issues the OAuth2 call, and so does the next \<^verbatim>\<open>request\<close> before anything else,
  whatever the recorded expiry is.
\<close>

theorem request_auth_failure_invalidates_token:
  "getAuthHeaders c w = (Inr hdrs, c1, w1) \<Longrightarrow>
   apiEndpoints w1 = (dt, Resolves r) # rest \<Longrightarrow>
   status r = 401 \<or> status r = 403 \<Longrightarrow>
   request endpoint options c w =
     (Inl (AuthenticationError ''Authentication failed. Check your API credentials.''),
      c1\<lparr>accessToken := None\<rparr>,
      w1\<lparr>now := now w1 + int dt, apiEndpoints := rest,
         calls := calls w1 @ [api_call c1 hdrs endpoint options]\<rparr>)
   \<and> (\<forall>w'. calls (snd (snd (getAccessToken (c1\<lparr>accessToken := None\<rparr>) w')))
              = calls w' @ [token_call c1])
   \<and> (\<forall>w' endpoint' options'. \<exists>cs.
         calls (snd (snd (request endpoint' options' (c1\<lparr>accessToken := None\<rparr>) w')))
           = calls w' @ token_call c1 # cs)"
proof (intro conjI allI)
  assume a: "getAuthHeaders c w = (Inr hdrs, c1, w1)" "apiEndpoints w1 = (dt, Resolves r) # rest"
    and s: "status r = 401 \<or> status r = 403"
  from s have "classify r c1 =
      (Inl (AuthenticationError ''Authentication failed. Check your API credentials.''),
       c1\<lparr>accessToken := None\<rparr>)"
    by (rule classify_auth_failure)
  with a show "request endpoint options c w =
     (Inl (AuthenticationError ''Authentication failed. Check your API credentials.''),
      c1\<lparr>accessToken := None\<rparr>,
      w1\<lparr>now := now w1 + int dt, apiEndpoints := rest,
         calls := calls w1 @ [api_call c1 hdrs endpoint options]\<rparr>)"
    by (simp add: request_answered)
next
  fix w' :: world
  have "getAccessToken (c1\<lparr>accessToken := None\<rparr>) w' = token_exchange (c1\<lparr>accessToken := None\<rparr>) w'"
    by (simp add: getAccessToken_miss)
  then show t: "calls (snd (snd (getAccessToken (c1\<lparr>accessToken := None\<rparr>) w')))
              = calls w' @ [token_call c1]"
    by (simp add: token_exchange_calls)
  fix endpoint' options'
  from request_calls_after_token [of endpoint' options' "c1\<lparr>accessToken := None\<rparr>" w'] t
  show "\<exists>cs. calls (snd (snd (request endpoint' options' (c1\<lparr>accessToken := None\<rparr>) w')))
           = calls w' @ token_call c1 # cs"
    by auto
qed

theorem request_auth_failure_invalidates_token_witness:
  "request probe no_options cached_client (api_world 0 (api_reply 401 Map.empty None))
     = (Inl (AuthenticationError ''Authentication failed. Check your API credentials.''),
        cached_client\<lparr>accessToken := None\<rparr>,
        \<lparr>now = 5, tokenEndpoint = [], apiEndpoints = [],
         calls = [api_call cached_client bearer_tok1 probe no_options]\<rparr>)
   \<and> tokenExpiry (cached_client\<lparr>accessToken := None\<rparr>) = 300000
   \<and> calls (snd (snd (getAccessToken (cached_client\<lparr>accessToken := None\<rparr>) (idle_world 6))))
       = [token_call cached_client]
   \<and> (\<exists>cs. calls (snd (snd (request probe no_options (cached_client\<lparr>accessToken := None\<rparr>)
                                  (idle_world 6))))
             = token_call cached_client # cs)"
proof -
  have h: "getAuthHeaders cached_client (api_world 0 (api_reply 401 Map.empty None))
             = (Inr bearer_tok1, cached_client, api_world 0 (api_reply 401 Map.empty None))"
    by (simp add: cached_client_headers api_world_simps)
  have e: "apiEndpoints (api_world 0 (api_reply 401 Map.empty None))
             = (5, Resolves (api_reply 401 Map.empty None)) # []"
    by (simp add: api_world_simps)
  have s: "status (api_reply 401 Map.empty None) = 401 \<or> status (api_reply 401 Map.empty None) = 403"
    by (simp add: api_reply_simps)
  note t = request_auth_failure_invalidates_token [OF h e s, of probe no_options]
  from t have 1: "request probe no_options cached_client (api_world 0 (api_reply 401 Map.empty None))
     = (Inl (AuthenticationError ''Authentication failed. Check your API credentials.''),
        cached_client\<lparr>accessToken := None\<rparr>,
        \<lparr>now = 5, tokenEndpoint = [], apiEndpoints = [],
         calls = [api_call cached_client bearer_tok1 probe no_options]\<rparr>)"
    by (simp add: api_world_def)
  have 2: "tokenExpiry (cached_client\<lparr>accessToken := None\<rparr>) = 300000"
    by (simp add: cached_client_def)
  from t have "calls (snd (snd (getAccessToken (cached_client\<lparr>accessToken := None\<rparr>) (idle_world 6))))
       = calls (idle_world 6) @ [token_call cached_client]"
    by blast
  then have 3: "calls (snd (snd (getAccessToken (cached_client\<lparr>accessToken := None\<rparr>) (idle_world 6))))
       = [token_call cached_client]"
    by (simp add: idle_world_def)
  from t have "\<exists>cs. calls (snd (snd (request probe no_options (cached_client\<lparr>accessToken := None\<rparr>)
                                  (idle_world 6))))
             = calls (idle_world 6) @ token_call cached_client # cs"
    by blast
  then have 4: "\<exists>cs. calls (snd (snd (request probe no_options (cached_client\<lparr>accessToken := None\<rparr>)
                                  (idle_world 6))))
             = token_call cached_client # cs"
    by (simp add: idle_world_def)
  from 1 2 3 4 show ?thesis by simp
qed






text \<open>
  Claim C8 (credentials are immutable). The constructor binds the credentials it is
  given and resolves the base URL (the override when it is a non-empty string, the
  default otherwise). Every operation of the interface, whether it resolves or fails,
  leaves the credentials and the base URL as they were: the client after the operation
  is the client before it with at most the token value and the expiry replaced.
\<close>

theorem credentials_immutable:
  "credentials (fst (snd (perform op c w))) = credentials c
   \<and> baseUrl (fst (snd (perform op c w))) = baseUrl c
   \<and> (\<exists>a e. fst (snd (perform op c w)) = c\<lparr>accessToken := a, tokenExpiry := e\<rparr>)
   \<and> credentials (createCrowdStrikeClient creds) = creds
   \<and> baseUrl (createCrowdStrikeClient creds)
       = (case cred_baseUrl creds of
            None \<Rightarrow> DEFAULT_BASE_URL
          | Some u \<Rightarrow> if u \<noteq> [] then u else DEFAULT_BASE_URL)"
proof -
  have b: "same_binding c (fst (snd (perform op c w)))" by (rule perform_binding)
  then have "fst (snd (perform op c w))
      = c\<lparr>accessToken := accessToken (fst (snd (perform op c w))),
          tokenExpiry := tokenExpiry (fst (snd (perform op c w)))\<rparr>"
    by (simp add: same_binding_def)
  then have "\<exists>a e. fst (snd (perform op c w)) = c\<lparr>accessToken := a, tokenExpiry := e\<rparr>"
    by blast
  with b show ?thesis
    by (simp add: same_binding_def createCrowdStrikeClient_def)
qed

theorem credentials_immutable_witness:
  "credentials (fst (snd (perform (ContainHost [''d1'']) cached_client
                   (api_world 0 (api_reply 401 Map.empty None))))) = demo_credentials
   \<and> baseUrl (fst (snd (perform (ContainHost [''d1'']) cached_client
                   (api_world 0 (api_reply 401 Map.empty None))))) = ''https://api.crowdstrike.com''
   \<and> accessToken (fst (snd (perform (ContainHost [''d1'']) cached_client
                   (api_world 0 (api_reply 401 Map.empty None))))) = None
   \<and> accessToken cached_client = Some ''tok1''"
proof -
  note t = credentials_immutable [where op = "ContainHost [''d1'']" and c = cached_client
      and w = "api_world 0 (api_reply 401 Map.empty None)" and creds = demo_credentials]
  have c: "credentials cached_client = demo_credentials"
    "baseUrl cached_client = ''https://api.crowdstrike.com''"
    "accessToken cached_client = Some ''tok1''"
    by (simp_all add: cached_client_def fresh_client_def createCrowdStrikeClient_def
        demo_credentials_def DEFAULT_BASE_URL_def)
  have h: "getAuthHeaders cached_client (api_world 0 (api_reply 401 Map.empty None))
             = (Inr bearer_tok1, cached_client, api_world 0 (api_reply 401 Map.empty None))"
    by (simp add: cached_client_headers api_world_simps)
  have "request [Lit ''/devices/entities/devices-actions/v2?action_name=contain'']
          (json_options ''POST'' (ids_body [''d1''])) cached_client
          (api_world 0 (api_reply 401 Map.empty None))
        = (fst (classify (api_reply 401 Map.empty None) cached_client),
           snd (classify (api_reply 401 Map.empty None) cached_client),
           (api_world 0 (api_reply 401 Map.empty None))
             \<lparr>now := now (api_world 0 (api_reply 401 Map.empty None)) + int 5, apiEndpoints := [],
              calls := calls (api_world 0 (api_reply 401 Map.empty None))
                @ [api_call cached_client bearer_tok1
                     [Lit ''/devices/entities/devices-actions/v2?action_name=contain'']
                     (json_options ''POST'' (ids_body [''d1'']))]\<rparr>)"
    using h by (rule request_answered) (simp add: api_world_simps)
  then have a: "accessToken (fst (snd (perform (ContainHost [''d1'']) cached_client
                   (api_world 0 (api_reply 401 Map.empty None))))) = None"
    by (simp add: as_result_state containHost_def await_then_state classify_auth_failure api_reply_simps)
  from t c a show ?thesis by simp
qed

text \<open>
  Claim C9 (acknowledgements). Whenever one of the twelve mutation operations
  resolves, the acknowledgement it returns has \<^verbatim>\<open>success = true\<close>; a failure is an
  error, never a returned value with \<^verbatim>\<open>success = false\<close>.
\<close>

theorem mutation_ack_success:
  "(\<forall>a. fst (containHost ids c w) = Inr a \<longrightarrow> success a)
   \<and> (\<forall>a. fst (liftContainment ids c w) = Inr a \<longrightarrow> success a)
   \<and> (\<forall>a. fst (hideHost ids c w) = Inr a \<longrightarrow> success a)
   \<and> (\<forall>a. fst (unhideHost ids c w) = Inr a \<longrightarrow> success a)
   \<and> (\<forall>a. fst (updateDetectionStatus ids st assignee comment c w) = Inr a \<longrightarrow> success a)
   \<and> (\<forall>a. fst (updateIncident ids action val c w) = Inr a \<longrightarrow> success a)
   \<and> (\<forall>a. fst (updateAlerts ids ost assignee comment c w) = Inr a \<longrightarrow> success a)
   \<and> (\<forall>a. fst (deleteIOCs ids c w) = Inr a \<longrightarrow> success a)
   \<and> (\<forall>a. fst (deleteHostGroups ids c w) = Inr a \<longrightarrow> success a)
   \<and> (\<forall>a. fst (addHostsToGroup groupId ids c w) = Inr a \<longrightarrow> success a)
   \<and> (\<forall>a. fst (removeHostsFromGroup groupId ids c w) = Inr a \<longrightarrow> success a)
   \<and> (\<forall>a. fst (deleteRTRSession sessionId c w) = Inr a \<longrightarrow> success a)"
proof -
  have k: "fst (await_then out (acknowledge msg)) = Inr a \<Longrightarrow> success a"
    for out :: "jsv outcome" and msg a
    by (auto simp: await_then_def acknowledge_def split: prod.splits sum.splits)
  show ?thesis
    by (intro conjI allI impI)
       (auto simp: containHost_def liftContainment_def hideHost_def unhideHost_def
          updateDetectionStatus_def updateIncident_def updateAlerts_def deleteIOCs_def
          deleteHostGroups_def addHostsToGroup_def removeHostsFromGroup_def deleteRTRSession_def
          Let_def dest: k)
qed

theorem mutation_ack_success_witness:
  "fst (containHost [''d1''] cached_client
          (api_world 0 (api_reply 200 Map.empty (Some empty_envelope))))
     = Inr \<lparr>success = True, message = ''Containment initiated for 1 host(s)''\<rparr>
   \<and> success \<lparr>success = True, message = ''Containment initiated for 1 host(s)''\<rparr>
   \<and> fst (deleteRTRSession ''s1'' cached_client (api_world 0 (api_reply 204 Map.empty None)))
     = Inr \<lparr>success = True, message = ''Session deleted''\<rparr>"
proof -
  have h: "getAuthHeaders cached_client (api_world 0 r) = (Inr bearer_tok1, cached_client, api_world 0 r)" for r
    by (simp add: cached_client_headers api_world_simps)
  have e: "apiEndpoints (api_world 0 r) = (5, Resolves r) # []" for r
    by (simp add: api_world_simps)
  have 1: "fst (containHost [''d1''] cached_client
          (api_world 0 (api_reply 200 Map.empty (Some empty_envelope))))
     = Inr \<lparr>success = True, message = ''Containment initiated for 1 host(s)''\<rparr>"
    by (simp add: containHost_def request_answered [OF h e] await_then_def acknowledge_def
        classify_def api_reply_def ok_def String_nat.simps digit_char_def split: prod.splits)
  have 3: "fst (deleteRTRSession ''s1'' cached_client (api_world 0 (api_reply 204 Map.empty None)))
     = Inr \<lparr>success = True, message = ''Session deleted''\<rparr>"
    by (simp add: deleteRTRSession_def request_answered [OF h e] await_then_def acknowledge_def
        classify_def api_reply_def ok_def split: prod.splits)
  from mutation_ack_success [where ids = "[''d1'']" and c = cached_client
      and w = "api_world 0 (api_reply 200 Map.empty (Some empty_envelope))"] 1
  have 2: "success \<lparr>success = True, message = ''Containment initiated for 1 host(s)''\<rparr>"
    by blast
  from 1 2 3 show ?thesis by simp
qed

text \<open>
  Claim C10 (unchecked first element). When the token was obtained and the vendor
  answers with a 2xx status other than 204 and an envelope whose \<^verbatim>\<open>resources\<close> array is
  empty, each of \<^verbatim>\<open>createIOC\<close>, \<^verbatim>\<open>updateIOC\<close>, \<^verbatim>\<open>createHostGroup\<close>, \<^verbatim>\<open>updateHostGroup\<close>,
  \<^verbatim>\<open>initRTRSession\<close>, \<^verbatim>\<open>executeRTRCommand\<close> and \<^verbatim>\<open>executeRTRActiveResponderCommand\<close>
  resolves with \<open>undefined\<close>, the first element of the empty array, and does not fail.
\<close>

theorem empty_resources_resolve_undefined:
  "getAuthHeaders c w = (Inr hdrs, c1, w1) \<Longrightarrow>
   apiEndpoints w1 = (dt, Resolves r) # rest \<Longrightarrow>
   ok r \<Longrightarrow> status r \<noteq> 204 \<Longrightarrow>
   body r = Some j \<Longrightarrow> own_property j ''resources'' = Some (JArr []) \<Longrightarrow>
   fst (createIOC input c w) = Inr JUndefined
   \<and> fst (updateIOC ident input c w) = Inr JUndefined
   \<and> fst (createHostGroup input c w) = Inr JUndefined
   \<and> fst (updateHostGroup ident input c w) = Inr JUndefined
   \<and> fst (initRTRSession deviceId queueOffline c w) = Inr JUndefined
   \<and> fst (executeRTRCommand sessionId baseCommand commandString c w) = Inr JUndefined
   \<and> fst (executeRTRActiveResponderCommand sessionId baseCommand commandString c w) = Inr JUndefined"
  by (simp add: createIOC_def updateIOC_def createHostGroup_def updateHostGroup_def
      initRTRSession_def executeRTRCommand_def executeRTRActiveResponderCommand_def
      request_resolves await_then_def first_resource_empty)

theorem empty_resources_resolve_undefined_witness:
  "ok (api_reply 200 Map.empty (Some empty_envelope))
   \<and> own_property empty_envelope ''resources'' = Some (JArr [])
   \<and> fst (createIOC [(''type'', JStr ''domain''), (''value'', JStr ''example.org'')] cached_client
            (api_world 0 (api_reply 200 Map.empty (Some empty_envelope)))) = Inr JUndefined
   \<and> fst (initRTRSession ''d1'' None cached_client
            (api_world 0 (api_reply 200 Map.empty (Some empty_envelope)))) = Inr JUndefined
   \<and> fst (executeRTRCommand ''s1'' ''ls'' ''ls /'' cached_client
            (api_world 0 (api_reply 200 Map.empty (Some empty_envelope)))) = Inr JUndefined"
proof -
  have h: "getAuthHeaders cached_client (api_world 0 (api_reply 200 Map.empty (Some empty_envelope)))
       = (Inr bearer_tok1, cached_client, api_world 0 (api_reply 200 Map.empty (Some empty_envelope)))"
    by (simp add: cached_client_headers api_world_simps)
  have e: "apiEndpoints (api_world 0 (api_reply 200 Map.empty (Some empty_envelope)))
       = (5, Resolves (api_reply 200 Map.empty (Some empty_envelope))) # []"
    by (simp add: api_world_simps)
  have o: "ok (api_reply 200 Map.empty (Some empty_envelope))"
    by (simp add: ok_def api_reply_def)
  have s: "status (api_reply 200 Map.empty (Some empty_envelope)) \<noteq> 204"
    by (simp add: api_reply_def)
  have b: "body (api_reply 200 Map.empty (Some empty_envelope)) = Some empty_envelope"
    by (simp add: api_reply_def)
  have p: "own_property empty_envelope ''resources'' = Some (JArr [])"
    by (simp add: own_property_def empty_envelope_def)
  note t = empty_resources_resolve_undefined [OF h e o s b p]
  from t [where input = "[(''type'', JStr ''domain''), (''value'', JStr ''example.org'')]"]
  have 1: "fst (createIOC [(''type'', JStr ''domain''), (''value'', JStr ''example.org'')] cached_client
            (api_world 0 (api_reply 200 Map.empty (Some empty_envelope)))) = Inr JUndefined"
    by blast
  from t [where deviceId = "''d1''" and queueOffline = None]
  have 2: "fst (initRTRSession ''d1'' None cached_client
            (api_world 0 (api_reply 200 Map.empty (Some empty_envelope)))) = Inr JUndefined"
    by blast
  from t [where sessionId = "''s1''" and baseCommand = "''ls''" and commandString = "''ls /''"]
  have 3: "fst (executeRTRCommand ''s1'' ''ls'' ''ls /'' cached_client
            (api_world 0 (api_reply 200 Map.empty (Some empty_envelope)))) = Inr JUndefined"
    by blast
  from o p 1 2 3 show ?thesis by simp
qed




text \<open>
  Claim C6 (required filter), as amended. The claim as stated makes the filter of a
  vulnerability query a required, non-empty parameter whose lack fails locally; the
  code requires its presence only, and only in the tool's schema.

  Amended: the tool \<^verbatim>\<open>crowdstrike_query_vulnerabilities\<close> invoked with the filter absent
  (or not a string) is rejected by its parameter schema before any network call, with
  the client and the world untouched. A filter that is present is not checked further:
  the empty string passes the schema, and \<^verbatim>\<open>queryVulnerabilities\<close> itself validates
  nothing, always sets the \<^verbatim>\<open>filter\<close> parameter to the string it is given and issues its
  HTTP call. Every other family's query operation leaves the filter out of the query
  when it is absent and resolves whenever the vendor answers 2xx with a JSON object.
\<close>

theorem vulnerability_filter_required:
  "(z_string (filter_arg args) = None \<longrightarrow>
      crowdstrike_query_vulnerabilities args c w = (InvalidParams, c, w))
   \<and> (filter_arg args = JUndefined \<longrightarrow>
      crowdstrike_query_vulnerabilities args c w = (InvalidParams, c, w))
   \<and> (filter_arg args = JStr flt
        \<and> z_int_range_default 1 400 100 (limit_arg args) = Some lim
        \<and> z_string_optional (after_arg args) = Some aft
        \<and> z_string_optional (sort_arg args) = Some srt \<longrightarrow>
      snd (crowdstrike_query_vulnerabilities args c w)
        = snd (queryVulnerabilities flt
                 (Some \<lparr>filter_param = None, limit = Some lim, offset = None,
                        sort_param = srt, after = aft\<rparr>) c w))
   \<and> (\<exists>cs. cs \<noteq> [] \<and> calls (snd (snd (queryVulnerabilities flt params c w))) = calls w @ cs)
   \<and> (getAuthHeaders c w = (Inr hdrs, c1, w1) \<longrightarrow>
      (\<exists>qp. map_of qp ''filter'' = Some flt
         \<and> calls (snd (snd (queryVulnerabilities flt params c w)))
             = calls w1 @ [api_call c1 hdrs
                             [Lit ''/spotlight/queries/vulnerabilities/v1?'', Params qp] no_options]))
   \<and> (opt_field p filter_param = None \<longrightarrow>
        map_of (offset_query p) ''filter'' = None
        \<and> map_of (set_if_string ''after'' (opt_field p after) (offset_query p)) ''filter'' = None)
   \<and> (opt_field p filter_param = None
        \<and> getAuthHeaders c w = (Inr hdrs, c1, w1) \<and> apiEndpoints w1 = (dt, Resolves r) # rest
        \<and> ok r \<and> status r \<noteq> 204 \<and> body r = Some (JObj kvs) \<longrightarrow>
        (\<exists>v. fst (queryHosts p c w) = Inr v)
        \<and> (\<exists>v. fst (queryDetections p c w) = Inr v)
        \<and> (\<exists>v. fst (queryIncidents p c w) = Inr v)
        \<and> (\<exists>v. fst (queryAlerts p c w) = Inr v)
        \<and> (\<exists>v. fst (queryIOCs p c w) = Inr v)
        \<and> (\<exists>v. fst (queryHostGroups p c w) = Inr v)
        \<and> (\<exists>v. fst (queryPreventionPolicies p c w) = Inr v)
        \<and> (\<exists>v. fst (queryDeviceControlPolicies p c w) = Inr v)
        \<and> (\<exists>v. fst (querySensorUpdatePolicies p c w) = Inr v))"
proof (intro conjI impI)
  assume "z_string (filter_arg args) = None"
  then show "crowdstrike_query_vulnerabilities args c w = (InvalidParams, c, w)"
    by (simp add: crowdstrike_query_vulnerabilities_def split: option.splits)
next
  assume "filter_arg args = JUndefined"
  then show "crowdstrike_query_vulnerabilities args c w = (InvalidParams, c, w)"
    by (simp add: crowdstrike_query_vulnerabilities_def split: option.splits)
next
  assume "filter_arg args = JStr flt
        \<and> z_int_range_default 1 400 100 (limit_arg args) = Some lim
        \<and> z_string_optional (after_arg args) = Some aft
        \<and> z_string_optional (sort_arg args) = Some srt"
  then show "snd (crowdstrike_query_vulnerabilities args c w)
        = snd (queryVulnerabilities flt
                 (Some \<lparr>filter_param = None, limit = Some lim, offset = None,
                        sort_param = srt, after = aft\<rparr>) c w)"
    by (auto simp: crowdstrike_query_vulnerabilities_def split: prod.splits sum.splits)
next
  show "\<exists>cs. cs \<noteq> [] \<and> calls (snd (snd (queryVulnerabilities flt params c w))) = calls w @ cs"
    unfolding queryVulnerabilities_def by (rule awaited_request_calls_nonempty)
next
  assume h: "getAuthHeaders c w = (Inr hdrs, c1, w1)"
  let ?qp = "set_if_string ''sort'' (opt_field params sort_param)
               (set_if_string ''after'' (opt_field params after)
                 (set_if_number ''limit'' (opt_field params limit)
                   (params_set ''filter'' flt [])))"
  have "map_of ?qp ''filter'' = Some flt" by (rule vulnerability_query_filter)
  moreover from h have "calls (snd (snd (queryVulnerabilities flt params c w)))
      = calls w1 @ [api_call c1 hdrs [Lit ''/spotlight/queries/vulnerabilities/v1?'', Params ?qp] no_options]"
    by (simp add: queryVulnerabilities_def awaited_request_calls_with_headers)
  ultimately show "\<exists>qp. map_of qp ''filter'' = Some flt
         \<and> calls (snd (snd (queryVulnerabilities flt params c w)))
             = calls w1 @ [api_call c1 hdrs
                             [Lit ''/spotlight/queries/vulnerabilities/v1?'', Params qp] no_options]"
    by blast
next
  assume "opt_field p filter_param = None"
  then show "map_of (offset_query p) ''filter'' = None"
    by (rule offset_query_no_filter)
next
  assume "opt_field p filter_param = None"
  then show "map_of (set_if_string ''after'' (opt_field p after) (offset_query p)) ''filter'' = None"
    by (simp add: map_of_set_if_string_other offset_query_no_filter)
next
  assume a: "opt_field p filter_param = None
        \<and> getAuthHeaders c w = (Inr hdrs, c1, w1) \<and> apiEndpoints w1 = (dt, Resolves r) # rest
        \<and> ok r \<and> status r \<noteq> 204 \<and> body r = Some (JObj kvs)"
  then have k: "\<exists>v. fst (await_then (request endpoint options c w) resources_or_empty) = Inr v"
    for endpoint options
    by (blast intro: awaited_query_resolves)
  show "\<exists>v. fst (queryHosts p c w) = Inr v" unfolding queryHosts_def by (rule k)
  show "\<exists>v. fst (queryDetections p c w) = Inr v" unfolding queryDetections_def by (rule k)
  show "\<exists>v. fst (queryIncidents p c w) = Inr v" unfolding queryIncidents_def by (rule k)
  show "\<exists>v. fst (queryAlerts p c w) = Inr v" unfolding queryAlerts_def by (rule k)
  show "\<exists>v. fst (queryIOCs p c w) = Inr v" unfolding queryIOCs_def by (rule k)
  show "\<exists>v. fst (queryHostGroups p c w) = Inr v" unfolding queryHostGroups_def by (rule k)
  show "\<exists>v. fst (queryPreventionPolicies p c w) = Inr v"
    unfolding queryPreventionPolicies_def by (rule k)
  show "\<exists>v. fst (queryDeviceControlPolicies p c w) = Inr v"
    unfolding queryDeviceControlPolicies_def by (rule k)
  show "\<exists>v. fst (querySensorUpdatePolicies p c w) = Inr v"
    unfolding querySensorUpdatePolicies_def by (rule k)
qed

theorem vulnerability_filter_required_witness:
  "crowdstrike_query_vulnerabilities no_filter_args cached_client
       (api_world 0 (api_reply 200 Map.empty (Some ids_envelope)))
     = (InvalidParams, cached_client, api_world 0 (api_reply 200 Map.empty (Some ids_envelope)))
   \<and> (\<exists>qp. map_of qp ''filter'' = Some ''status:open''
         \<and> calls (snd (snd (queryVulnerabilities ''status:open'' None cached_client (idle_world 0))))
             = [api_call cached_client bearer_tok1
                  [Lit ''/spotlight/queries/vulnerabilities/v1?'', Params qp] no_options])
   \<and> map_of (offset_query None) ''filter'' = None
   \<and> (\<exists>v. fst (queryHosts None cached_client
                  (api_world 0 (api_reply 200 Map.empty (Some ids_envelope)))) = Inr v)"
proof -
  have z: "z_string (filter_arg no_filter_args) = None"
    by (simp add: no_filter_args_def)
  from vulnerability_filter_required [where args = no_filter_args and c = cached_client
      and w = "api_world 0 (api_reply 200 Map.empty (Some ids_envelope))"] z
  have 1: "crowdstrike_query_vulnerabilities no_filter_args cached_client
       (api_world 0 (api_reply 200 Map.empty (Some ids_envelope)))
     = (InvalidParams, cached_client, api_world 0 (api_reply 200 Map.empty (Some ids_envelope)))"
    by blast
  have h0: "getAuthHeaders cached_client (idle_world 0) = (Inr bearer_tok1, cached_client, idle_world 0)"
    by (simp add: cached_client_headers idle_world_def)
  from vulnerability_filter_required [where c = cached_client and w = "idle_world 0"
      and hdrs = bearer_tok1 and ?c1.0 = cached_client and ?w1.0 = "idle_world 0"
      and flt = "''status:open''" and params = None] h0
  have "\<exists>qp. map_of qp ''filter'' = Some ''status:open''
         \<and> calls (snd (snd (queryVulnerabilities ''status:open'' None cached_client (idle_world 0))))
             = calls (idle_world 0) @ [api_call cached_client bearer_tok1
                  [Lit ''/spotlight/queries/vulnerabilities/v1?'', Params qp] no_options]"
    by blast
  then have 2: "\<exists>qp. map_of qp ''filter'' = Some ''status:open''
         \<and> calls (snd (snd (queryVulnerabilities ''status:open'' None cached_client (idle_world 0))))
             = [api_call cached_client bearer_tok1
                  [Lit ''/spotlight/queries/vulnerabilities/v1?'', Params qp] no_options]"
    by (simp add: idle_world_def)
  have n: "opt_field None filter_param = None"
    by (simp add: opt_field_def)
  have h: "getAuthHeaders cached_client (api_world 0 (api_reply 200 Map.empty (Some ids_envelope)))
       = (Inr bearer_tok1, cached_client, api_world 0 (api_reply 200 Map.empty (Some ids_envelope)))"
    by (simp add: cached_client_headers api_world_simps)
  have e: "apiEndpoints (api_world 0 (api_reply 200 Map.empty (Some ids_envelope)))
       = (5, Resolves (api_reply 200 Map.empty (Some ids_envelope))) # []"
    by (simp add: api_world_simps)
  have o: "ok (api_reply 200 Map.empty (Some ids_envelope))
       \<and> status (api_reply 200 Map.empty (Some ids_envelope)) \<noteq> 204
       \<and> body (api_reply 200 Map.empty (Some ids_envelope))
           = Some (JObj [(''resources'', JArr [JStr ''d1'', JStr ''d2''])])"
    by (simp add: ok_def api_reply_def ids_envelope_def)
  note t = vulnerability_filter_required [where p = None and c = cached_client
      and w = "api_world 0 (api_reply 200 Map.empty (Some ids_envelope))"
      and hdrs = bearer_tok1 and ?c1.0 = cached_client
      and ?w1.0 = "api_world 0 (api_reply 200 Map.empty (Some ids_envelope))"
      and dt = 5 and r = "api_reply 200 Map.empty (Some ids_envelope)" and rest = "[]"
      and kvs = "[(''resources'', JArr [JStr ''d1'', JStr ''d2''])]"]
  from t n have 3: "map_of (offset_query None) ''filter'' = None"
    by blast
  from t n h e o have 4: "\<exists>v. fst (queryHosts None cached_client
                  (api_world 0 (api_reply 200 Map.empty (Some ids_envelope)))) = Inr v"
    by blast
  from 1 2 3 4 show ?thesis by simp
qed

text \<open>
  The claim C6 as stated fails on the empty filter: the tool invoked with
  \<^verbatim>\<open>filter = ""\<close> passes the schema, and the query goes to the vendor with an empty
  \<^verbatim>\<open>filter\<close> parameter; no validation error is raised and a network call is issued.
\<close>

theorem vulnerability_filter_required_counterexample:
  "crowdstrike_query_vulnerabilities empty_filter_args cached_client
       (api_world 0 (api_reply 200 Map.empty (Some ids_envelope)))
     = (JsonResponse (JObj [(''ids'', JArr [JStr ''d1'', JStr ''d2'']), (''count'', JNum 2)]),
        cached_client,
        \<lparr>now = 5, tokenEndpoint = [], apiEndpoints = [],
         calls = [api_call cached_client bearer_tok1
                    [Lit ''/spotlight/queries/vulnerabilities/v1?'',
                     Params [(''filter'', []), (''limit'', ''100'')]]
                    no_options]\<rparr>)
   \<and> fst (crowdstrike_query_vulnerabilities empty_filter_args cached_client
       (api_world 0 (api_reply 200 Map.empty (Some ids_envelope)))) \<noteq> InvalidParams
   \<and> calls (snd (snd (queryVulnerabilities [] None cached_client (idle_world 0))))
       = [api_call cached_client bearer_tok1
            [Lit ''/spotlight/queries/vulnerabilities/v1?'', Params [(''filter'', [])]] no_options]"
proof -
  have h: "getAuthHeaders cached_client (api_world 0 r) = (Inr bearer_tok1, cached_client, api_world 0 r)" for r
    by (simp add: cached_client_headers api_world_simps)
  have e: "apiEndpoints (api_world 0 r) = (5, Resolves r) # []" for r
    by (simp add: api_world_simps)
  have qp: "set_if_string ''sort'' None (set_if_string ''after'' None
              (set_if_number ''limit'' (Some 100) (params_set ''filter'' [] [])))
            = [(''filter'', []), (''limit'', ''100'')]"
    by (simp add: set_if_string_def set_if_number_def params_set_def String_int_def
        String_nat.simps digit_char_def)
  have 1: "crowdstrike_query_vulnerabilities empty_filter_args cached_client
       (api_world 0 (api_reply 200 Map.empty (Some ids_envelope)))
     = (JsonResponse (JObj [(''ids'', JArr [JStr ''d1'', JStr ''d2'']), (''count'', JNum 2)]),
        cached_client,
        \<lparr>now = 5, tokenEndpoint = [], apiEndpoints = [],
         calls = [api_call cached_client bearer_tok1
                    [Lit ''/spotlight/queries/vulnerabilities/v1?'',
                     Params [(''filter'', []), (''limit'', ''100'')]]
                    no_options]\<rparr>)"
    using request_answered [OF h [of "api_reply 200 Map.empty (Some ids_envelope)"]
        e [of "api_reply 200 Map.empty (Some ids_envelope)"],
        where endpoint = "[Lit ''/spotlight/queries/vulnerabilities/v1?'',
                           Params [(''filter'', []), (''limit'', ''100'')]]"
        and options = no_options]
    by (simp add: crowdstrike_query_vulnerabilities_def empty_filter_args_def
        queryVulnerabilities_def opt_field_def qp await_then_def resources_or_empty_def
        classify_def api_reply_def ok_def ids_envelope_def api_world_def)
  have h0: "getAuthHeaders cached_client (idle_world 0) = (Inr bearer_tok1, cached_client, idle_world 0)"
    by (simp add: cached_client_headers idle_world_def)
  have qp0: "set_if_string ''sort'' None (set_if_string ''after'' None
              (set_if_number ''limit'' None (params_set ''filter'' [] [])))
            = [(''filter'', [])]"
    by (simp add: set_if_string_def set_if_number_def params_set_def)
  have 3: "calls (snd (snd (queryVulnerabilities [] None cached_client (idle_world 0))))
       = [api_call cached_client bearer_tok1
            [Lit ''/spotlight/queries/vulnerabilities/v1?'', Params [(''filter'', [])]] no_options]"
    using awaited_request_calls_with_headers [OF h0]
    by (simp add: queryVulnerabilities_def opt_field_def qp0 idle_world_def)
  from 1 3 show ?thesis by simp
qed

end
